theory Spec2Isabelle
  imports Complex_Main "HOL-Library.Sublist"
begin

section \<open>Texts and character classes\<close>

text \<open>
  A text is a HOL \<open>string\<close>; a character stands for the Unicode code point of the same
  number, so the texts of this development are the Python \<open>str\<close> values over the code
  points below 256. The three character categories used by the patterns of \<open>app.py\<close>
  (\<^verbatim>\<open>\w\<close>, \<^verbatim>\<open>\s\<close>, \<^verbatim>\<open>\d\<close>) and the whitespace of \<^verbatim>\<open>str.strip\<close> are the ones Python's
  Unicode tables give on that range.
\<close>

definition cp :: "char \<Rightarrow> int" where
  "cp c = of_char c"

definition between :: "int \<Rightarrow> int \<Rightarrow> int \<Rightarrow> bool" where
  "between lo hi n = (lo \<le> n \<and> n \<le> hi)"

definition is_digit :: "char \<Rightarrow> bool" where
  "is_digit c = between 48 57 (cp c)"

definition is_space :: "char \<Rightarrow> bool" where
  "is_space c = (let n = cp c in between 9 13 n \<or> between 28 32 n \<or> n = 133 \<or> n = 160)"

definition is_word :: "char \<Rightarrow> bool" where
  "is_word c =
     (let n = cp c in
      between 48 57 n \<or> between 65 90 n \<or> n = 95 \<or> between 97 122 n \<or>
      n = 170 \<or> between 178 179 n \<or> n = 181 \<or> between 185 186 n \<or>
      between 188 190 n \<or> between 192 214 n \<or> between 216 246 n \<or> between 248 255 n)"

definition lower_char :: "char \<Rightarrow> char" where
  "lower_char c =
     (let n = cp c in
      if between 65 90 n \<or> between 192 214 n \<or> between 216 222 n
      then char_of (n + 32) else c)"

definition lower :: "string \<Rightarrow> string" where
  "lower s = map lower_char s"

definition strip :: "string \<Rightarrow> string" where
  "strip s = rev (dropWhile is_space (rev (dropWhile is_space s)))"

section \<open>The regular expressions of the program\<close>

text \<open>
  The patterns of \<open>app.py\<close> use literals, character sets, \<^verbatim>\<open>.\<close>, the assertions
  \<^verbatim>\<open>\b\<close>, \<^verbatim>\<open>^\<close> and \<^verbatim>\<open>$\<close>, the quantifiers \<^verbatim>\<open>?\<close>, \<^verbatim>\<open>*\<close>, \<^verbatim>\<open>+\<close>, \<^verbatim>\<open>{n,}\<close> and
  \<^verbatim>\<open>*?\<close> on single characters, and \<^verbatim>\<open>{n}\<close> on a group; there is no alternation.
  The matcher is the backtracking matcher of Python's \<open>re\<close>: \<open>rmatch\<close> returns
  the positions at which a match of the pattern can end, in the order in which
  backtracking tries them, so that the head of the list is the match \<open>re\<close> reports.
  A position is the character before it (none at the start of the text) and the
  text that remains.
\<close>

datatype citem = Ch char | Rng char char | CatW | CatS | CatD

datatype atom = Lit char | In "citem list" | NotIn "citem list" | Dot

datatype regex =
    Eps
  | One atom
  | Opt atom
  | Star atom
  | StarLazy atom
  | Bnd
  | Bol
  | Eol
  | Seq regex regex

record flags =
  ignorecase :: bool
  dotall :: bool

definition no_flags :: flags where
  "no_flags = \<lparr>ignorecase = False, dotall = False\<rparr>"

type_synonym pos = "char option \<times> string"

fun in_item :: "citem \<Rightarrow> char \<Rightarrow> bool" where
  "in_item (Ch a) c = (c = a)"
| "in_item (Rng a b) c = between (cp a) (cp b) (cp c)"
| "in_item CatW c = is_word c"
| "in_item CatS c = is_space c"
| "in_item CatD c = is_digit c"

text \<open>
  With IGNORECASE a literal matches a character of the same lower case. The sets of
  the three patterns compiled with IGNORECASE (\<^verbatim>\<open>[^>]\<close>, \<^verbatim>\<open>[:\s=]\<close>, \<^verbatim>\<open>[^\s]\<close>) have no
  cased member, and for such a set \<open>re\<close> compiles the case-sensitive test.
\<close>

fun amatch :: "flags \<Rightarrow> atom \<Rightarrow> char \<Rightarrow> bool" where
  "amatch f (Lit a) c = (if ignorecase f then lower_char c = lower_char a else c = a)"
| "amatch f (In items) c = list_ex (\<lambda>i. in_item i c) items"
| "amatch f (NotIn items) c = (\<not> list_ex (\<lambda>i. in_item i c) items)"
| "amatch f Dot c = (dotall f \<or> c \<noteq> char_of (10::nat))"

fun boundary :: "pos \<Rightarrow> bool" where
  "boundary (p, xs) =
     ((case p of None \<Rightarrow> False | Some c \<Rightarrow> is_word c) \<noteq>
      (case xs of [] \<Rightarrow> False | c # _ \<Rightarrow> is_word c))"

fun rmatch :: "flags \<Rightarrow> regex \<Rightarrow> pos \<Rightarrow> pos list" where
  "rmatch f Eps st = [st]"
| "rmatch f (One a) (p, []) = []"
| "rmatch f (One a) (p, x # xs) = (if amatch f a x then [(Some x, xs)] else [])"
| "rmatch f (Opt a) (p, []) = [(p, [])]"
| "rmatch f (Opt a) (p, x # xs) =
     (if amatch f a x then [(Some x, xs), (p, x # xs)] else [(p, x # xs)])"
| "rmatch f (Star a) (p, []) = [(p, [])]"
| "rmatch f (Star a) (p, x # xs) =
     (if amatch f a x then rmatch f (Star a) (Some x, xs) else []) @ [(p, x # xs)]"
| "rmatch f (StarLazy a) (p, []) = [(p, [])]"
| "rmatch f (StarLazy a) (p, x # xs) =
     (p, x # xs) # (if amatch f a x then rmatch f (StarLazy a) (Some x, xs) else [])"
| "rmatch f Bnd st = (if boundary st then [st] else [])"
| "rmatch f Bol (p, xs) = (if p = None then [(p, xs)] else [])"
| "rmatch f Eol (p, xs) = (if xs = [] \<or> xs = [char_of (10::nat)] then [(p, xs)] else [])"
| "rmatch f (Seq a b) st = concat (map (rmatch f b) (rmatch f a st))"

text \<open>The derived forms: a sequence, \<^verbatim>\<open>r{n}\<close>, \<^verbatim>\<open>a+\<close> and \<^verbatim>\<open>a{n,}\<close>.\<close>

fun cat :: "regex list \<Rightarrow> regex" where
  "cat [] = Eps"
| "cat [r] = r"
| "cat (r # rs) = Seq r (cat rs)"

fun repeat_n :: "nat \<Rightarrow> regex \<Rightarrow> regex" where
  "repeat_n 0 r = Eps"
| "repeat_n (Suc 0) r = r"
| "repeat_n (Suc n) r = Seq r (repeat_n n r)"

definition Plus :: "atom \<Rightarrow> regex" where
  "Plus a = Seq (One a) (Star a)"

definition AtLeast :: "nat \<Rightarrow> atom \<Rightarrow> regex" where
  "AtLeast n a = Seq (repeat_n n (One a)) (Star a)"

definition lits :: "string \<Rightarrow> regex" where
  "lits s = cat (map (\<lambda>c. One (Lit c)) s)"

subsection \<open>\<^verbatim>\<open>re.match\<close>, \<^verbatim>\<open>re.finditer\<close>, \<^verbatim>\<open>re.sub\<close>\<close>

definition re_match :: "flags \<Rightarrow> regex \<Rightarrow> string \<Rightarrow> bool" where
  "re_match f r s = (rmatch f r (None, s) \<noteq> [])"

text \<open>
  The scan of \<^verbatim>\<open>finditer\<close> and \<^verbatim>\<open>sub\<close>: at each position the first match is taken and
  the scan goes on where it ends; where nothing matches the scan moves one character
  on. A match of no character is followed by a move of one character; no pattern of
  the program matches the empty text (\<open>min_len\<close> below).
\<close>

function finditer_from :: "flags \<Rightarrow> regex \<Rightarrow> pos \<Rightarrow> string list" where
  "finditer_from f r (p, xs) =
     (case rmatch f r (p, xs) of
        (p', xs') # _ \<Rightarrow>
          if length xs' < length xs
          then take (length xs - length xs') xs # finditer_from f r (p', xs')
          else [] # (case xs of [] \<Rightarrow> [] | x # t \<Rightarrow> finditer_from f r (Some x, t))
      | [] \<Rightarrow> (case xs of [] \<Rightarrow> [] | x # t \<Rightarrow> finditer_from f r (Some x, t)))"
  by pat_completeness auto
termination
  by (relation "measure (\<lambda>(f, r, p, xs). length xs)") auto

function sub_from :: "flags \<Rightarrow> regex \<Rightarrow> string \<Rightarrow> pos \<Rightarrow> string" where
  "sub_from f r repl (p, xs) =
     (case rmatch f r (p, xs) of
        (p', xs') # _ \<Rightarrow>
          if length xs' < length xs
          then repl @ sub_from f r repl (p', xs')
          else repl @ (case xs of [] \<Rightarrow> [] | x # t \<Rightarrow> x # sub_from f r repl (Some x, t))
      | [] \<Rightarrow> (case xs of [] \<Rightarrow> [] | x # t \<Rightarrow> x # sub_from f r repl (Some x, t)))"
  by pat_completeness auto
termination
  by (relation "measure (\<lambda>(f, r, repl, p, xs). length xs)") auto

definition finditer :: "flags \<Rightarrow> regex \<Rightarrow> string \<Rightarrow> string list" where
  "finditer f r s = finditer_from f r (None, s)"

definition re_sub :: "flags \<Rightarrow> regex \<Rightarrow> string \<Rightarrow> string \<Rightarrow> string" where
  "re_sub f r repl s = sub_from f r repl (None, s)"

section \<open>RequestValidator.sanitize\_content\<close>

definition script_pattern :: regex where
  "script_pattern =
     cat [lits ''<script'', Star (NotIn [Ch (CHR ''>'')]), One (Lit (CHR ''>'')),
          StarLazy Dot, lits ''</script>'']"

definition javascript_pattern :: regex where
  "javascript_pattern = lits ''javascript:''"

definition whitelist :: "citem list" where
  "whitelist =
     [CatW, CatS, Ch (CHR ''.''), Ch (CHR '',''), Ch (CHR ''!''), Ch (CHR ''?''),
      Ch (CHR ''-''), Ch (CHR ''(''), Ch (CHR '')''), Ch (CHR 0x27), Ch (CHR 0x22)]"

definition special_pattern :: regex where
  "special_pattern = Plus (NotIn whitelist)"

definition sanitize_content :: "string \<Rightarrow> string" where
  "sanitize_content content =
     (let content = re_sub \<lparr>ignorecase = True, dotall = True\<rparr> script_pattern [] content;
          content = re_sub \<lparr>ignorecase = True, dotall = False\<rparr> javascript_pattern [] content;
          content = re_sub no_flags special_pattern [] content
      in strip content)"

section \<open>DataPrivacyFilter\<close>

definition digits :: "nat \<Rightarrow> regex" where
  "digits n = repeat_n n (One (In [CatD]))"

definition alnum :: "citem list" where
  "alnum = [Rng (CHR ''A'') (CHR ''Z''), Rng (CHR ''a'') (CHR ''z''), Rng (CHR ''0'') (CHR ''9'')]"

definition dash :: regex where
  "dash = One (Lit (CHR ''-''))"

definition credit_card :: regex where
  "credit_card =
     cat [Bnd, repeat_n 3 (Seq (digits 4) (Opt (In [Ch (CHR ''-''), CatS]))), digits 4, Bnd]"

definition ssn :: regex where
  "ssn = cat [Bnd, digits 3, dash, digits 2, dash, digits 4, Bnd]"

definition email :: regex where
  "email =
     cat [Bnd,
          Plus (In (alnum @ [Ch (CHR ''.''), Ch (CHR ''_''), Ch (CHR ''%''), Ch (CHR ''+''),
                             Ch (CHR ''-'')])),
          One (Lit (CHR ''@'')),
          Plus (In (alnum @ [Ch (CHR ''.''), Ch (CHR ''-'')])),
          One (Lit (CHR ''.'')),
          AtLeast 2 (In [Rng (CHR ''A'') (CHR ''Z''), Ch (CHR ''|''),
                         Rng (CHR ''a'') (CHR ''z'')]),
          Bnd]"

definition phone :: regex where
  "phone = cat [Bnd, digits 3, dash, digits 3, dash, digits 4, Bnd]"

definition api_key :: regex where
  "api_key = AtLeast 32 (In alnum)"

definition keyword_value :: "string \<Rightarrow> regex" where
  "keyword_value kw =
     cat [lits kw, Plus (In [Ch (CHR '':''), CatS, Ch (CHR ''='')]), Plus (NotIn [CatS])]"

text \<open>
  The dictionary \<open>self.patterns\<close>, in its insertion order, which is the order in which
  Python iterates it. The last two patterns carry the inline flag \<^verbatim>\<open>(?i)\<close>.
\<close>

definition patterns :: "(string \<times> flags \<times> regex) list" where
  "patterns =
     [(''credit_card'', no_flags, credit_card),
      (''ssn'', no_flags, ssn),
      (''email'', no_flags, email),
      (''phone'', no_flags, phone),
      (''api_key'', no_flags, api_key),
      (''password'', \<lparr>ignorecase = True, dotall = False\<rparr>, keyword_value ''password''),
      (''token'', \<lparr>ignorecase = True, dotall = False\<rparr>, keyword_value ''token'')]"

definition detect_sensitive_data :: "string \<Rightarrow> (string \<times> string) list" where
  "detect_sensitive_data text =
     concat (map (\<lambda>(data_type, f, r). map (\<lambda>m. (data_type, m)) (finditer f r text)) patterns)"

text \<open>
  \<^verbatim>\<open>data_type.upper()\<close> is applied to the names of the patterns only, which are ASCII.
\<close>

definition upper_char :: "char \<Rightarrow> char" where
  "upper_char c = (let n = cp c in if between 97 122 n then char_of (n - 32) else c)"

definition placeholder :: "string \<Rightarrow> string" where
  "placeholder data_type = ''[REDACTED_'' @ map upper_char data_type @ '']''"

definition redact_sensitive_data :: "string \<Rightarrow> string" where
  "redact_sensitive_data text =
     foldl (\<lambda>redacted (data_type, f, r). re_sub f r (placeholder data_type) redacted)
       text patterns"

section \<open>The environment\<close>

text \<open>
  \<^verbatim>\<open>os.getenv(name, default)\<close> reads a map from names to texts. \<^verbatim>\<open>int(text)\<close> accepts
  surrounding whitespace (the four separators 28 to 31 are not whitespace for it), a
  sign, and decimal digits with single underscores between them; anything else raises
  \<^verbatim>\<open>ValueError\<close>. (The limit that recent interpreters put on the number of digits is
  left out.)
\<close>

type_synonym env = "string \<Rightarrow> string option"

definition getenv :: "env \<Rightarrow> string \<Rightarrow> string \<Rightarrow> string" where
  "getenv environ name dflt = (case environ name of None \<Rightarrow> dflt | Some v \<Rightarrow> v)"

fun after_digit :: "int \<Rightarrow> string \<Rightarrow> int option"
  and need_digit :: "int \<Rightarrow> string \<Rightarrow> int option" where
  "after_digit acc [] = Some acc"
| "after_digit acc (c # cs) =
     (if is_digit c then after_digit (10 * acc + (cp c - 48)) cs
      else if c = CHR ''_'' then need_digit acc cs else None)"
| "need_digit acc [] = None"
| "need_digit acc (c # cs) =
     (if is_digit c then after_digit (10 * acc + (cp c - 48)) cs else None)"

definition int_space :: "char \<Rightarrow> bool" where
  "int_space c = (let n = cp c in between 9 13 n \<or> n = 32 \<or> n = 133 \<or> n = 160)"

definition py_int :: "string \<Rightarrow> int option" where
  "py_int s =
     (case rev (dropWhile int_space (rev (dropWhile int_space s))) of
        [] \<Rightarrow> None
      | c # cs \<Rightarrow>
          if c = CHR ''-'' then map_option uminus (need_digit 0 cs)
          else if c = CHR ''+'' then need_digit 0 cs
          else need_digit 0 (c # cs))"

section \<open>Requests, exceptions\<close>

text \<open>
  A request body is a JSON value as \<^verbatim>\<open>json.loads\<close> builds it; an object is the list of
  its entries, with distinct keys. A float is a real number, an infinity or NaN.
  The text of an exception is kept as a value: a literal text, one of the three
  formatted texts of the validator with the value they interpolate, or the text that
  the interpreter or the web framework gives an exception of its own.
\<close>

datatype pyfloat = Finite real | PosInf | NegInf | NaN

datatype json =
    JNull
  | JBool bool
  | JInt int
  | JFloat pyfloat
  | JStr string
  | JList "json list"
  | JDict "(string \<times> json) list"

definition dict_get :: "(string \<times> json) list \<Rightarrow> string \<Rightarrow> json \<Rightarrow> json" where
  "dict_get d k dflt = (case map_of d k of None \<Rightarrow> dflt | Some v \<Rightarrow> v)"

datatype msg =
    Text string
  | Invalid_role json
  | Invalid_messages nat
  | Message_too_long int
  | Builtin_text

datatype openai_error =
    BadRequestError string
  | NotFoundError string
  | InternalServerError string
  | OtherError string

datatype exn =
    ValueError msg
  | RuntimeError msg
  | TypeError
  | AttributeError
  | IndexError
  | Upstream openai_error

fun error_text :: "openai_error \<Rightarrow> string" where
  "error_text (BadRequestError t) = t"
| "error_text (NotFoundError t) = t"
| "error_text (InternalServerError t) = t"
| "error_text (OtherError t) = t"

fun str_of :: "exn \<Rightarrow> msg" where
  "str_of (ValueError m) = m"
| "str_of (RuntimeError m) = m"
| "str_of (Upstream e) = Text (error_text e)"
| "str_of e = Builtin_text"

section \<open>RequestValidator\<close>

record request_validator =
  max_message_length :: int
  max_messages :: nat
  allowed_roles :: "string set"

definition RequestValidator :: "env \<Rightarrow> exn + request_validator" where
  "RequestValidator environ =
     (case py_int (getenv environ ''MAX_MESSAGE_LENGTH'' ''10000'') of
        None \<Rightarrow> Inl (ValueError Builtin_text)
      | Some n \<Rightarrow>
          Inr \<lparr>max_message_length = n, max_messages = 100,
               allowed_roles = {''user'', ''assistant'', ''system''}\<rparr>)"

record chat_message =
  role :: string
  content :: string

record chat_request =
  model :: string
  messages :: "chat_message list"
  max_tokens :: "json option"
  temperature :: "json option"

definition model_pattern :: regex where
  "model_pattern =
     cat [Bol, Plus (In [Rng (CHR ''a'') (CHR ''z''), Rng (CHR ''A'') (CHR ''Z''),
                         Rng (CHR ''0'') (CHR ''9''), Ch (CHR ''_''), Ch (CHR ''-'')]), Eol]"

text \<open>
  The body of the loop over the messages. \<^verbatim>\<open>role not in self.allowed_roles\<close> raises
  \<^verbatim>\<open>TypeError\<close> for a role that cannot be hashed (a list or an object); \<^verbatim>\<open>len(content)\<close>
  raises it for a content without a length, and \<^verbatim>\<open>re.sub\<close> for a content that has a
  length and is no text.
\<close>

fun hashable :: "json \<Rightarrow> bool" where
  "hashable (JList _) = False"
| "hashable (JDict _) = False"
| "hashable _ = True"

fun in_roles :: "json \<Rightarrow> string set \<Rightarrow> bool" where
  "in_roles (JStr r) roles = (r \<in> roles)"
| "in_roles _ roles = False"

fun len :: "json \<Rightarrow> nat option" where
  "len (JStr s) = Some (length s)"
| "len (JList l) = Some (length l)"
| "len (JDict d) = Some (length d)"
| "len _ = None"

fun the_str :: "json \<Rightarrow> string" where
  "the_str (JStr s) = s"
| "the_str _ = []"

definition validate_message :: "request_validator \<Rightarrow> json \<Rightarrow> exn + chat_message" where
  "validate_message self m =
     (case m of
        JDict d \<Rightarrow>
          (let r = dict_get d ''role'' JNull in
           if \<not> hashable r then Inl TypeError
           else if \<not> in_roles r (allowed_roles self) then Inl (ValueError (Invalid_role r))
           else
             (let c = dict_get d ''content'' (JStr []) in
              case len c of
                None \<Rightarrow> Inl TypeError
              | Some n \<Rightarrow>
                  if int n > max_message_length self
                  then Inl (ValueError (Message_too_long (max_message_length self)))
                  else (case c of
                          JStr s \<Rightarrow> Inr \<lparr>role = the_str r, content = sanitize_content s\<rparr>
                        | _ \<Rightarrow> Inl TypeError)))
      | _ \<Rightarrow> Inl (ValueError (Text ''Message must be a dictionary'')))"

fun validate_messages :: "request_validator \<Rightarrow> json list \<Rightarrow> exn + chat_message list" where
  "validate_messages self [] = Inr []"
| "validate_messages self (m # ms) =
     (case validate_message self m of
        Inl e \<Rightarrow> Inl e
      | Inr v \<Rightarrow>
          (case validate_messages self ms of
             Inl e \<Rightarrow> Inl e
           | Inr vs \<Rightarrow> Inr (v # vs)))"

text \<open>
  The optional parameters. A Python \<^verbatim>\<open>bool\<close> is an \<^verbatim>\<open>int\<close> (\<^verbatim>\<open>False\<close> is 0, \<^verbatim>\<open>True\<close> is
  1), and every comparison with NaN is false.
\<close>

fun max_tokens_ok :: "json \<Rightarrow> bool" where
  "max_tokens_ok (JInt n) = (\<not> (n < 1 \<or> n > 4096))"
| "max_tokens_ok (JBool b) = b"
| "max_tokens_ok _ = False"

fun float_less :: "pyfloat \<Rightarrow> real \<Rightarrow> bool" where
  "float_less (Finite x) b = (x < b)"
| "float_less NegInf b = True"
| "float_less _ b = False"

fun float_greater :: "pyfloat \<Rightarrow> real \<Rightarrow> bool" where
  "float_greater (Finite x) b = (x > b)"
| "float_greater PosInf b = True"
| "float_greater _ b = False"

fun temperature_ok :: "json \<Rightarrow> bool" where
  "temperature_ok (JInt n) = (\<not> (n < 0 \<or> n > 2))"
| "temperature_ok (JBool b) = True"
| "temperature_ok (JFloat x) = (\<not> (float_less x 0 \<or> float_greater x 2))"
| "temperature_ok _ = False"

definition check_max_tokens :: "(string \<times> json) list \<Rightarrow> exn + json option" where
  "check_max_tokens request_data =
     (case map_of request_data ''max_tokens'' of
        None \<Rightarrow> Inr None
      | Some v \<Rightarrow>
          if \<not> max_tokens_ok v then Inl (ValueError (Text ''Invalid max_tokens value''))
          else Inr (Some v))"

definition check_temperature :: "(string \<times> json) list \<Rightarrow> exn + json option" where
  "check_temperature request_data =
     (case map_of request_data ''temperature'' of
        None \<Rightarrow> Inr None
      | Some v \<Rightarrow>
          if \<not> temperature_ok v then Inl (ValueError (Text ''Invalid temperature value''))
          else Inr (Some v))"

definition validate_chat_request ::
  "request_validator \<Rightarrow> (string \<times> json) list \<Rightarrow> exn + chat_request" where
  "validate_chat_request self request_data =
     (case dict_get request_data ''model'' (JStr []) of
        JStr m \<Rightarrow>
          if \<not> re_match no_flags model_pattern m
          then Inl (ValueError (Text ''Invalid model name format''))
          else
            (case dict_get request_data ''messages'' (JList []) of
               JList ms \<Rightarrow>
                 if length ms > max_messages self
                 then Inl (ValueError (Invalid_messages (max_messages self)))
                 else
                   (case validate_messages self ms of
                      Inl e \<Rightarrow> Inl e
                    | Inr vs \<Rightarrow>
                        (case check_max_tokens request_data of
                           Inl e \<Rightarrow> Inl e
                         | Inr mt \<Rightarrow>
                             (case check_temperature request_data of
                                Inl e \<Rightarrow> Inl e
                              | Inr t \<Rightarrow>
                                  Inr \<lparr>model = m, messages = vs, max_tokens = mt,
                                       temperature = t\<rparr>)))
             | _ \<Rightarrow> Inl (ValueError (Invalid_messages (max_messages self))))
      | _ \<Rightarrow> Inl TypeError)"

text \<open>
  The order of the checks as section 4.3 of the specification words it, to be compared
  with \<open>validate_chat_request\<close>: the model name; the messages being a list of at most
  \<open>max_messages\<close> entries; then whether any message is no object; then whether any
  message has a role that is not allowed (the first such role is reported); then
  whether any message has a content that is too long. This definition follows the
  words of the specification, not the source; where the specification is silent (a
  request that passes these five checks) it is \<open>validate_chat_request\<close>.
\<close>

fun is_record :: "json \<Rightarrow> bool" where
  "is_record (JDict d) = True"
| "is_record m = False"

fun role_of :: "json \<Rightarrow> json" where
  "role_of (JDict d) = dict_get d ''role'' JNull"
| "role_of m = JNull"

fun content_of :: "json \<Rightarrow> json" where
  "content_of (JDict d) = dict_get d ''content'' (JStr [])"
| "content_of m = JStr []"

definition too_long :: "request_validator \<Rightarrow> json \<Rightarrow> bool" where
  "too_long self m =
     (case len (content_of m) of None \<Rightarrow> False | Some n \<Rightarrow> int n > max_message_length self)"

definition validate_as_specified ::
  "request_validator \<Rightarrow> (string \<times> json) list \<Rightarrow> exn + chat_request" where
  "validate_as_specified self request_data =
     (case dict_get request_data ''model'' (JStr []) of
        JStr m \<Rightarrow>
          if \<not> re_match no_flags model_pattern m
          then Inl (ValueError (Text ''Invalid model name format''))
          else
            (case dict_get request_data ''messages'' (JList []) of
               JList ms \<Rightarrow>
                 if length ms > max_messages self
                 then Inl (ValueError (Invalid_messages (max_messages self)))
                 else if list_ex (\<lambda>m. \<not> is_record m) ms
                 then Inl (ValueError (Text ''Message must be a dictionary''))
                 else
                   (case find (\<lambda>m. \<not> in_roles (role_of m) (allowed_roles self)) ms of
                      Some m \<Rightarrow> Inl (ValueError (Invalid_role (role_of m)))
                    | None \<Rightarrow>
                        if list_ex (too_long self) ms
                        then Inl (ValueError (Message_too_long (max_message_length self)))
                        else validate_chat_request self request_data)
             | _ \<Rightarrow> Inl (ValueError (Invalid_messages (max_messages self))))
      | _ \<Rightarrow> Inl TypeError)"

section \<open>DataPrivacyFilter.validate\_request\_privacy\<close>

text \<open>A violation is the index of the message and the kinds found in it.\<close>

definition validate_request_privacy :: "chat_message list \<Rightarrow> (nat \<times> string list) list" where
  "validate_request_privacy msgs =
     concat (map (\<lambda>(i, message).
                    let sensitive_data = detect_sensitive_data (content message)
                    in if sensitive_data \<noteq> [] then [(i, map fst sensitive_data)] else [])
                 (enumerate 0 msgs))"

section \<open>SecurityMonitor\<close>

text \<open>
  The monitor's state: the request times of each address (a \<^verbatim>\<open>defaultdict(list)\<close>), the
  set of blocked addresses, and the warnings that \<^verbatim>\<open>block_ip\<close> logs. The clock is an
  argument of \<open>check_rate_limit\<close>; times are real numbers.
\<close>

datatype reason = Rate_limit_exceeded int int | Reason string

record security_monitor =
  rate_limits :: "string \<Rightarrow> real list"
  failed_attempts :: "string \<Rightarrow> int"
  blocked_ips :: "string set"
  warnings :: "(string \<times> reason) list"

definition SecurityMonitor :: security_monitor where
  "SecurityMonitor =
     \<lparr>rate_limits = (\<lambda>_. []), failed_attempts = (\<lambda>_. 0), blocked_ips = {}, warnings = []\<rparr>"

definition is_blocked :: "security_monitor \<Rightarrow> string \<Rightarrow> bool" where
  "is_blocked self ip_address = (ip_address \<in> blocked_ips self)"

definition block_ip :: "security_monitor \<Rightarrow> string \<Rightarrow> reason \<Rightarrow> security_monitor" where
  "block_ip self ip_address why =
     self\<lparr>blocked_ips := insert ip_address (blocked_ips self),
          warnings := warnings self @ [(ip_address, why)]\<rparr>"

definition check_rate_limit ::
  "env \<Rightarrow> real \<Rightarrow> security_monitor \<Rightarrow> string \<Rightarrow> int \<Rightarrow> int \<Rightarrow> exn + bool \<times> security_monitor" where
  "check_rate_limit environ now self ip_address limit window =
     (case (if limit = 100
            then (case py_int (getenv environ ''RATE_LIMIT_PER_HOUR'' ''100'') of
                    None \<Rightarrow> Inl (ValueError Builtin_text)
                  | Some n \<Rightarrow> Inr n)
            else Inr limit) of
        Inl e \<Rightarrow> Inl e
      | Inr limit \<Rightarrow>
          (let recent = filter (\<lambda>req_time. now - req_time < real_of_int window)
                          (rate_limits self ip_address);
               self = self\<lparr>rate_limits := (rate_limits self)(ip_address := recent)\<rparr>
           in if int (length recent) \<ge> limit
              then Inr (False, block_ip self ip_address (Rate_limit_exceeded limit window))
              else Inr (True, self\<lparr>rate_limits := (rate_limits self)(ip_address := recent @ [now])\<rparr>)))"

text \<open>The operations of the monitor, and a run of them from a state.\<close>

datatype monitor_op =
    Check_rate_limit real string int int
  | Block_ip string reason
  | Is_blocked string

fun monitor_step :: "env \<Rightarrow> security_monitor \<Rightarrow> monitor_op \<Rightarrow> security_monitor" where
  "monitor_step environ self (Check_rate_limit now ip limit window) =
     (case check_rate_limit environ now self ip limit window of
        Inl e \<Rightarrow> self
      | Inr (ok, self') \<Rightarrow> self')"
| "monitor_step environ self (Block_ip ip why) = block_ip self ip why"
| "monitor_step environ self (Is_blocked ip) = self"

definition monitor_run :: "env \<Rightarrow> security_monitor \<Rightarrow> monitor_op list \<Rightarrow> security_monitor" where
  "monitor_run environ self ops = foldl (monitor_step environ) self ops"

section \<open>SecureGaiaClient and the routes\<close>

text \<open>
  The upstream provider is a parameter: what \<^verbatim>\<open>client.chat.completions.create\<close> returns
  or raises for a call. A completion is the content of each of its choices and its
  model name; a stream is its chunks (the delta content of each choice of a chunk)
  and the exception that may end the iteration. The effects of a route are the calls
  it makes and the lines it logs, in order.
\<close>

record call =
  call_model :: string
  call_messages :: "chat_message list"
  call_max_tokens :: "json option"
  call_temperature :: "json option"
  call_stream :: bool

record completion =
  choices :: "string option list"
  response_model :: "string option"

type_synonym chunk = "string option list"

record upstream =
  create :: "call \<Rightarrow> openai_error + completion"
  create_stream :: "call \<Rightarrow> openai_error + chunk list \<times> openai_error option"

datatype effect = Create call | Log_error string msg

record gaia_client =
  default_model :: string

definition SecureGaiaClient_chat_completion ::
  "gaia_client \<Rightarrow> upstream \<Rightarrow> chat_message list \<Rightarrow> string \<Rightarrow> json option \<Rightarrow> json option
   \<Rightarrow> (exn + completion) \<times> effect list" where
  "SecureGaiaClient_chat_completion self up msgs m mt t =
     (let c = \<lparr>call_model = (if m = [] then default_model self else m), call_messages = msgs,
               call_max_tokens = mt, call_temperature = t, call_stream = False\<rparr>
      in case create up c of
           Inr response \<Rightarrow> (Inr response, [Create c])
         | Inl (BadRequestError e) \<Rightarrow>
             (Inl (ValueError (Text ''Invalid request format'')),
              [Create c, Log_error ''Bad request to GaiaNet: '' (Text e)])
         | Inl (NotFoundError e) \<Rightarrow>
             (Inl (ValueError (Text ''Model not available'')),
              [Create c, Log_error ''Model not found: '' (Text e)])
         | Inl (InternalServerError e) \<Rightarrow>
             (Inl (RuntimeError (Text ''Service temporarily unavailable'')),
              [Create c, Log_error ''GaiaNet server error: '' (Text e)])
         | Inl (OtherError e) \<Rightarrow>
             (Inl (RuntimeError (Text ''Request failed'')),
              [Create c, Log_error ''Unexpected error: '' (Text e)]))"

record app =
  gaia :: "gaia_client option"
  validator :: request_validator
  environ :: env

definition privacy_enabled :: "env \<Rightarrow> bool" where
  "privacy_enabled e = (lower (getenv e ''ENABLE_DATA_PRIVACY_FILTER'' ''true'') = ''true'')"

datatype response =
    Error_json nat msg
  | Chat_json string string string

fun truthy :: "json \<Rightarrow> bool" where
  "truthy JNull = False"
| "truthy (JBool b) = b"
| "truthy (JInt n) = (n \<noteq> 0)"
| "truthy (JFloat x) = (x \<noteq> Finite 0)"
| "truthy (JStr s) = (s \<noteq> [])"
| "truthy (JList l) = (l \<noteq> [])"
| "truthy (JDict d) = (d \<noteq> [])"

text \<open>The handlers of the exceptions of \<^verbatim>\<open>/api/chat\<close>.\<close>

fun chat_error :: "exn \<Rightarrow> response \<times> effect list" where
  "chat_error (ValueError m) = (Error_json 400 m, [])"
| "chat_error (RuntimeError m) = (Error_json 500 m, [])"
| "chat_error e =
     (Error_json 500 (Text ''Internal server error''),
      [Log_error ''Unexpected error in chat completion: '' (str_of e)])"

text \<open>
  \<^verbatim>\<open>POST /api/chat\<close>, for a body that \<^verbatim>\<open>request.get_json()\<close> parses to \<open>data\<close>; \<open>ts\<close>
  is the timestamp of the answer. A body that is true and no object raises at
  \<^verbatim>\<open>"message" in data\<close>, \<^verbatim>\<open>data["message"]\<close> or \<^verbatim>\<open>data.get\<close>.
\<close>

definition chat_completion :: "app \<Rightarrow> upstream \<Rightarrow> string \<Rightarrow> json \<Rightarrow> response \<times> effect list" where
  "chat_completion a up ts data =
     (case gaia a of
        None \<Rightarrow> (Error_json 500 (Text ''GaiaNet not configured''), [])
      | Some gaia_client \<Rightarrow>
          if \<not> truthy data then (Error_json 400 (Text ''Invalid JSON''), [])
          else
            (case data of
               JDict d \<Rightarrow>
                 (let msgs = (case map_of d ''message'' of
                                Some v \<Rightarrow> JList [JDict [(''role'', JStr ''user''), (''content'', v)]]
                              | None \<Rightarrow> dict_get d ''messages'' (JList []));
                      m = dict_get d ''model'' (JStr (default_model gaia_client));
                      chat_request =
                        [(''model'', m), (''messages'', msgs)]
                        @ (case map_of d ''max_tokens'' of
                             Some v \<Rightarrow> [(''max_tokens'', v)] | None \<Rightarrow> [])
                        @ (case map_of d ''temperature'' of
                             Some v \<Rightarrow> [(''temperature'', v)] | None \<Rightarrow> [])
                  in case validate_chat_request (validator a) chat_request of
                       Inl e \<Rightarrow> chat_error e
                     | Inr validated_request \<Rightarrow>
                         if privacy_enabled (environ a)
                            \<and> validate_request_privacy (messages validated_request) \<noteq> []
                         then (Error_json 400 (Text ''Privacy violation detected''), [])
                         else
                           (case SecureGaiaClient_chat_completion gaia_client up
                                   (messages validated_request) (model validated_request)
                                   (max_tokens validated_request)
                                   (temperature validated_request) of
                              (Inl e, effects) \<Rightarrow> (fst (chat_error e), effects @ snd (chat_error e))
                            | (Inr response, effects) \<Rightarrow>
                                (case choices response of
                                   [] \<Rightarrow>
                                     (fst (chat_error IndexError),
                                      effects @ snd (chat_error IndexError))
                                 | c # _ \<Rightarrow>
                                     (let text = (case c of None \<Rightarrow> [] | Some t \<Rightarrow> t);
                                          text = (if privacy_enabled (environ a)
                                                  then redact_sensitive_data text else text)
                                      in (Chat_json text
                                            (case response_model response of
                                               Some rm \<Rightarrow> rm
                                             | None \<Rightarrow> model validated_request)
                                            ts,
                                          effects)))))
             | _ \<Rightarrow> chat_error TypeError))"

text \<open>
  \<^verbatim>\<open>GET /api/chat/stream\<close>. The view returns \<^verbatim>\<open>Response(generate(), ...)\<close>; the body of
  \<^verbatim>\<open>generate\<close> runs when the server iterates the response. \<^verbatim>\<open>request\<close> is bound to
  the request context, which the application pops when the view has returned, before
  the body is iterated: the generator is not wrapped in \<^verbatim>\<open>stream_with_context\<close>. The
  argument \<open>ctx\<close> of \<open>generate\<close> is the query parameters \<^verbatim>\<open>message\<close> and \<^verbatim>\<open>model\<close> when
  the generator runs inside a request context, and nothing when it runs outside one:
  then \<^verbatim>\<open>request.args\<close> raises \<^verbatim>\<open>RuntimeError\<close> at the first line, and the handler of
  \<^verbatim>\<open>generate\<close> yields its text. \<open>chat_stream\<close> is the route as it is served.
\<close>

datatype event = Content_event string | Done_event | Error_event msg

fun stream_chunks :: "bool \<Rightarrow> chunk list \<Rightarrow> event list \<times> exn option" where
  "stream_chunks redact [] = ([], None)"
| "stream_chunks redact ([] # rest) = ([], Some IndexError)"
| "stream_chunks redact ((None # _) # rest) = stream_chunks redact rest"
| "stream_chunks redact ((Some text # _) # rest) =
     (let (events, e) = stream_chunks redact rest
      in (Content_event (if redact then redact_sensitive_data text else text) # events, e))"

definition stream_error :: "exn \<Rightarrow> event list \<times> effect list" where
  "stream_error e = ([Error_event (str_of e)], [Log_error ''Streaming error: '' (str_of e)])"

definition generate ::
  "app \<Rightarrow> upstream \<Rightarrow> (string option \<times> string option) option \<Rightarrow> event list \<times> effect list" where
  "generate a up ctx =
     (case ctx of
        None \<Rightarrow> stream_error (RuntimeError Builtin_text)
      | Some (message_arg, model_arg) \<Rightarrow>
     (let m = (case model_arg of
                 Some v \<Rightarrow> v
               | None \<Rightarrow> (case gaia a of Some g \<Rightarrow> default_model g | None \<Rightarrow> ''default''))
      in case message_arg of
           None \<Rightarrow> ([Error_event (Text ''Message parameter required'')], [])
         | Some message \<Rightarrow>
             if message = [] then ([Error_event (Text ''Message parameter required'')], [])
             else
               (case gaia a of
                  None \<Rightarrow> ([Error_event (Text ''GaiaNet not configured'')], [])
                | Some gaia_client \<Rightarrow>
                    (let chat_request =
                           [(''model'', JStr m),
                            (''messages'',
                             JList [JDict [(''role'', JStr ''user''), (''content'', JStr message)]])]
                     in case validate_chat_request (validator a) chat_request of
                          Inl e \<Rightarrow> stream_error e
                        | Inr validated_request \<Rightarrow>
                            (let c = \<lparr>call_model = model validated_request,
                                      call_messages = messages validated_request,
                                      call_max_tokens = None, call_temperature = None,
                                      call_stream = True\<rparr>
                             in case create_stream up c of
                                  Inl e \<Rightarrow>
                                    (fst (stream_error (Upstream e)),
                                     Create c # snd (stream_error (Upstream e)))
                                | Inr (chunks, failure) \<Rightarrow>
                                    (case stream_chunks (privacy_enabled (environ a)) chunks of
                                       (events, Some e) \<Rightarrow>
                                         (events @ fst (stream_error e),
                                          Create c # snd (stream_error e))
                                     | (events, None) \<Rightarrow>
                                         (case failure of
                                            Some e \<Rightarrow>
                                              (events @ fst (stream_error (Upstream e)),
                                               Create c # snd (stream_error (Upstream e)))
                                          | None \<Rightarrow> (events @ [Done_event], [Create c]))))))))"

definition chat_stream ::
  "app \<Rightarrow> upstream \<Rightarrow> string option \<Rightarrow> string option \<Rightarrow> event list \<times> effect list" where
  "chat_stream a up message_arg model_arg = generate a up None"

text \<open>The checks before every request: the default limit and window of \<open>check_rate_limit\<close>.\<close>

definition security_checks ::
  "env \<Rightarrow> real \<Rightarrow> security_monitor \<Rightarrow> string \<Rightarrow> exn + response option \<times> security_monitor" where
  "security_checks e now monitor client_ip =
     (if is_blocked monitor client_ip
      then Inr (Some (Error_json 403 (Text ''Access denied'')), monitor)
      else (case check_rate_limit e now monitor client_ip 100 3600 of
              Inl x \<Rightarrow> Inl x
            | Inr (ok, monitor') \<Rightarrow>
                Inr (if ok then None else Some (Error_json 429 (Text ''Rate limit exceeded'')),
                     monitor')))"

section \<open>Start of the process, and the configuration of the tests\<close>

text \<open>
  The module builds the validator and the client from the environment; the client is
  absent when \<^verbatim>\<open>SecureGaiaClient()\<close> raises. \<open>test_env\<close> is the environment that
  \<^verbatim>\<open>tests/test_security.py\<close> patches in, \<open>test_app\<close> the process started in it, and
  \<open>card_number\<close> the card number of the tests.
\<close>

definition SecureGaiaClient :: "env \<Rightarrow> exn + gaia_client" where
  "SecureGaiaClient e =
     (if e ''GAIANET_BASE_URL'' \<in> {None, Some []} \<or> e ''GAIANET_API_KEY'' \<in> {None, Some []}
      then Inl (ValueError (Text ''GAIANET_BASE_URL and GAIANET_API_KEY must be set''))
      else Inr \<lparr>default_model = getenv e ''GAIANET_MODEL'' ''default''\<rparr>)"

definition start :: "env \<Rightarrow> exn + app" where
  "start e =
     (case RequestValidator e of
        Inl x \<Rightarrow> Inl x
      | Inr v \<Rightarrow>
          Inr \<lparr>gaia = (case SecureGaiaClient e of Inl _ \<Rightarrow> None | Inr c \<Rightarrow> Some c),
               validator = v, environ = e\<rparr>)"

definition test_env :: env where
  "test_env = [''GAIANET_BASE_URL'' \<mapsto> ''http://test'', ''GAIANET_API_KEY'' \<mapsto> ''test-key'']"

definition test_app :: app where
  "test_app =
     \<lparr>gaia = Some \<lparr>default_model = ''default''\<rparr>,
      validator = \<lparr>max_message_length = 10000, max_messages = 100,
                   allowed_roles = {''user'', ''assistant'', ''system''}\<rparr>,
      environ = test_env\<rparr>"

definition card_number :: string where
  "card_number = ''4532-1234-5678-9012''"

definition user_hi :: json where
  "user_hi = JDict [(''role'', JStr ''user''), (''content'', JStr ''hi'')]"

section \<open>Auxiliary notions\<close>

text \<open>
  The exception that \<open>SecureGaiaClient.chat_completion\<close> raises for a failure of the
  provider, the line it logs, and the call it makes.
\<close>

fun mapped :: "openai_error \<Rightarrow> exn" where
  "mapped (BadRequestError x) = ValueError (Text ''Invalid request format'')"
| "mapped (NotFoundError x) = ValueError (Text ''Model not available'')"
| "mapped (InternalServerError x) = RuntimeError (Text ''Service temporarily unavailable'')"
| "mapped (OtherError x) = RuntimeError (Text ''Request failed'')"

fun log_line :: "openai_error \<Rightarrow> effect" where
  "log_line (BadRequestError x) = Log_error ''Bad request to GaiaNet: '' (Text x)"
| "log_line (NotFoundError x) = Log_error ''Model not found: '' (Text x)"
| "log_line (InternalServerError x) = Log_error ''GaiaNet server error: '' (Text x)"
| "log_line (OtherError x) = Log_error ''Unexpected error: '' (Text x)"

definition the_call :: "gaia_client \<Rightarrow> chat_message list \<Rightarrow> string \<Rightarrow> json option \<Rightarrow> json option \<Rightarrow> call" where
  "the_call g ms m mt t =
     \<lparr>call_model = (if m = [] then default_model g else m), call_messages = ms,
      call_max_tokens = mt, call_temperature = t, call_stream = False\<rparr>"


text \<open>The least number of characters a match of a pattern consumes.\<close>

fun min_len :: "regex \<Rightarrow> nat" where
  "min_len (One a) = 1"
| "min_len (Seq a b) = min_len a + min_len b"
| "min_len r = 0"


text \<open>The characters that the third substitution of the sanitizer keeps.\<close>

definition allowed :: "char \<Rightarrow> bool" where
  "allowed c = list_ex (\<lambda>i. in_item i c) whitelist"

section \<open>Properties of the matcher\<close>

lemma rmatch_suffix:
  "st' \<in> set (rmatch f r st) \<Longrightarrow> suffix (snd st') (snd st)"
proof (induction f r st arbitrary: st' rule: rmatch.induct)
  case (13 f a b st)
  then obtain m where m: "m \<in> set (rmatch f a st)" "st' \<in> set (rmatch f b m)"
    by auto
  from 13(1)[OF m(1)] 13(2)[OF m(1) m(2)] show ?case
    by (rule suffix_order.trans[rotated])
qed (auto simp: suffix_Cons split: if_splits)

lemma rmatch_min_len:
  "st' \<in> set (rmatch f r st) \<Longrightarrow> length (snd st') + min_len r \<le> length (snd st)"
proof (induction f r st arbitrary: st' rule: rmatch.induct)
  case (13 f a b st)
  then obtain m where m: "m \<in> set (rmatch f a st)" "st' \<in> set (rmatch f b m)"
    by auto
  from 13(1)[OF m(1)] 13(2)[OF m(1) m(2)] show ?case
    by simp
qed (fastforce split: if_splits)+

lemma star_nonempty: "rmatch f (Star a) st \<noteq> []"
  by (cases st; cases "snd st") auto

lemma seq_fails:
  "(\<And>m. m \<in> set (rmatch f a st) \<Longrightarrow> rmatch f b m = []) \<Longrightarrow> rmatch f (Seq a b) st = []"
  by simp

lemma special_fails: 
  assumes "rmatch no_flags special_pattern (p, x # xs) = []" shows "allowed x"
proof (rule ccontr)
  assume "\<not> allowed x"
  then have "rmatch no_flags special_pattern (p, x # xs) = rmatch no_flags (Star (NotIn whitelist)) (Some x, xs)"
    by (simp add: special_pattern_def Plus_def allowed_def)
  with assms star_nonempty show False by simp
qed

lemma special_consumes:
  "rmatch no_flags special_pattern (p, xs) = (p', xs') # rest \<Longrightarrow> length xs' < length xs"
  using rmatch_min_len[of "(p', xs')" no_flags special_pattern "(p, xs)"]
  by (simp add: special_pattern_def Plus_def)

text \<open>No pattern of the program matches the empty text.\<close>

lemma patterns_consume:
  "list_all (\<lambda>(k, f, r). 0 < min_len r) patterns \<and>
   0 < min_len script_pattern \<and> 0 < min_len javascript_pattern \<and>
   0 < min_len special_pattern \<and> 0 < min_len model_pattern"
  by (simp add: patterns_def credit_card_def ssn_def email_def phone_def api_key_def
      keyword_value_def script_pattern_def javascript_pattern_def special_pattern_def
      model_pattern_def Plus_def AtLeast_def lits_def digits_def dash_def numeral_eq_Suc)

declare sub_from.simps [simp del] finditer_from.simps [simp del]



lemma sub_special_allowed:
  "c \<in> set (sub_from no_flags special_pattern [] st) \<Longrightarrow> allowed c"
proof (induction no_flags special_pattern "[] :: string" st rule: sub_from.induct)
  case (1 p xs)
  show ?case
  proof (cases "rmatch no_flags special_pattern (p, xs)")
    case Nil
    show ?thesis
    proof (cases xs)
      case empty: Nil
      with 1(4) Nil show ?thesis by (simp add: sub_from.simps)
    next
      case (Cons x t)
      with 1(4) Nil have "c = x \<or> c \<in> set (sub_from no_flags special_pattern [] (Some x, t))"
        by (simp add: sub_from.simps)
      moreover have "allowed x" using special_fails Nil Cons by simp
      ultimately show ?thesis
        using 1(1)[OF Nil Cons] by auto
    qed
  next
    case (Cons m rest)
    obtain p' xs' where m: "m = (p', xs')" by (cases m)
    have shorter: "length xs' < length xs"
      using special_consumes Cons m by simp
    with 1(4) Cons m have "c \<in> set (sub_from no_flags special_pattern [] (p', xs'))"
      by (simp add: sub_from.simps)
    then show ?thesis using 1(2)[OF Cons m[symmetric] shorter] by simp
  qed
qed

lemma set_strip: "c \<in> set (strip s) \<Longrightarrow> c \<in> set s"
  unfolding strip_def by (auto dest!: set_dropWhileD)

lemma sanitize_allowed: "c \<in> set (sanitize_content s) \<Longrightarrow> allowed c"
  unfolding sanitize_content_def Let_def re_sub_def
  by (blast dest: set_strip sub_special_allowed)

lemma not_allowed: "\<not> allowed (CHR ''<'')" "\<not> allowed (CHR '':'')" "\<not> allowed (CHR ''@'')"
  by (simp_all add: allowed_def whitelist_def is_word_def is_space_def between_def cp_def)

lemma sublist_mem: "sublist u s \<Longrightarrow> c \<in> set u \<Longrightarrow> c \<in> set s"
  by (auto simp: sublist_def)

section \<open>The sanitizer leaves no script tag\<close>

text \<open>
  Claim C7. For every text, with or without a \<^verbatim>\<open><script>...</script>\<close> construct in any
  casing, the result of \<open>sanitize_content\<close> contains no \<^verbatim>\<open><script\<close> and no
  \<^verbatim>\<open>javascript:\<close>: the third substitution removes every character outside the
  whitelist, among them \<^verbatim>\<open><\<close> and \<^verbatim>\<open>:\<close>, so that the removals cannot put either text
  together again.
\<close>

theorem sanitize_no_script:
  "\<not> sublist ''<script'' (sanitize_content s) \<and> \<not> sublist ''javascript:'' (sanitize_content s)"
proof -
  have "CHR ''<'' \<notin> set (sanitize_content s)" "CHR '':'' \<notin> set (sanitize_content s)"
    using sanitize_allowed not_allowed by blast+
  then show ?thesis
    using sublist_mem[of "''<script''" _ "CHR ''<''"] sublist_mem[of "''javascript:''" _ "CHR '':''"]
    by auto
qed

section \<open>No email finding after sanitization\<close>

lemma email_needs_at:
  assumes "CHR ''@'' \<notin> set xs"
  shows "rmatch no_flags email (p, xs) = []"
proof -
  let ?local = "Plus (In (alnum @ [Ch (CHR ''.''), Ch (CHR ''_''), Ch (CHR ''%''), Ch (CHR ''+''),
                             Ch (CHR ''-'')]))"
  obtain rest where e: "email = Seq Bnd (Seq ?local (Seq (One (Lit (CHR ''@''))) rest))"
    by (simp add: email_def)
  have at: "rmatch no_flags (Seq (One (Lit (CHR ''@''))) rest) m = []"
    if "suffix (snd m) xs" for m
  proof (cases m)
    case (Pair q ys)
    with that assms have "CHR ''@'' \<notin> set ys"
      by (auto simp: suffix_def)
    then show ?thesis using Pair by (cases ys) (auto simp: no_flags_def)
  qed
  have mid: "rmatch no_flags (Seq ?local (Seq (One (Lit (CHR ''@''))) rest)) m = []"
    if "suffix (snd m) xs" for m
  proof (rule seq_fails)
    fix m' assume "m' \<in> set (rmatch no_flags ?local m)"
    then have "suffix (snd m') (snd m)" by (rule rmatch_suffix)
    with that have "suffix (snd m') xs" by (meson suffix_order.trans)
    then show "rmatch no_flags (Seq (One (Lit (CHR ''@''))) rest) m' = []" by (rule at)
  qed
  show ?thesis
    unfolding e
  proof (rule seq_fails)
    fix m assume "m \<in> set (rmatch no_flags Bnd (p, xs))"
    then have "suffix (snd m) (snd (p, xs))" by (rule rmatch_suffix)
    then show "rmatch no_flags (Seq ?local (Seq (One (Lit (CHR ''@''))) rest)) m = []"
      using mid by simp
  qed
qed

lemma finditer_email_none:
  "CHR ''@'' \<notin> set xs \<Longrightarrow> finditer_from no_flags email (p, xs) = []"
proof (induction xs arbitrary: p)
  case Nil
  then show ?case by (simp add: finditer_from.simps email_needs_at)
next
  case (Cons x xs)
  then show ?case
    using email_needs_at[of "x # xs" p] by (simp add: finditer_from.simps)
qed

lemma detect_kinds:
  "k \<in> fst ` set (detect_sensitive_data t) \<Longrightarrow>
   \<exists>f r. (k, f, r) \<in> set patterns \<and> finditer f r t \<noteq> []"
  by (fastforce simp: detect_sensitive_data_def)

lemma no_email_after_sanitize:
  "''email'' \<notin> fst ` set (detect_sensitive_data (sanitize_content s))"
proof
  assume "''email'' \<in> fst ` set (detect_sensitive_data (sanitize_content s))"
  then obtain f r where "(''email'', f, r) \<in> set patterns" "finditer f r (sanitize_content s) \<noteq> []"
    using detect_kinds by blast
  then have "finditer no_flags email (sanitize_content s) \<noteq> []"
    by (simp add: patterns_def)
  moreover have "CHR ''@'' \<notin> set (sanitize_content s)"
    using sanitize_allowed not_allowed by blast
  ultimately show False
    by (simp add: finditer_def finditer_email_none)
qed


section \<open>The block set only grows\<close>

lemma block_ip_mono: "blocked_ips self \<subseteq> blocked_ips (block_ip self ip why)"
  by (auto simp: block_ip_def)

lemma check_rate_limit_mono:
  "check_rate_limit e now self ip limit window = Inr (ok, self') \<Longrightarrow>
   blocked_ips self \<subseteq> blocked_ips self'"
  by (auto simp: check_rate_limit_def block_ip_def Let_def split: if_splits option.splits sum.splits)

lemma monitor_step_mono: "blocked_ips self \<subseteq> blocked_ips (monitor_step e self op)"
proof (cases op)
  case (Check_rate_limit now ip limit window)
  then show ?thesis
    using check_rate_limit_mono[of e now self ip limit window]
    by (auto split: sum.splits)
next
  case (Block_ip ip why)
  then show ?thesis using block_ip_mono by simp
next
  case (Is_blocked ip)
  then show ?thesis by simp
qed

lemma monitor_run_mono: "blocked_ips self \<subseteq> blocked_ips (monitor_run e self ops)"
  unfolding monitor_run_def
proof (induction ops arbitrary: self)
  case Nil
  then show ?case by simp
next
  case (Cons op ops)
  have "blocked_ips self \<subseteq> blocked_ips (monitor_step e self op)"
    by (rule monitor_step_mono)
  also have "\<dots> \<subseteq> blocked_ips (foldl (monitor_step e) (monitor_step e self op) ops)"
    by (rule Cons.IH)
  finally show ?case by simp
qed

text \<open>
  Claim C5. The set of blocked addresses only grows: once \<open>is_blocked\<close> is true of an
  address, it is true after every run of \<open>check_rate_limit\<close>, \<open>block_ip\<close> and
  \<open>is_blocked\<close> operations, at any times and with any arguments.
\<close>

theorem blocked_forever:
  "is_blocked self ip \<Longrightarrow> is_blocked (monitor_run e self ops) ip"
  using monitor_run_mono[of self e ops] by (auto simp: is_blocked_def)

theorem blocked_forever_witness:
  "is_blocked (block_ip SecurityMonitor ''10.0.0.1'' (Reason ''abuse'')) ''10.0.0.1'' \<and>
   is_blocked
     (monitor_run (\<lambda>_. None) (block_ip SecurityMonitor ''10.0.0.1'' (Reason ''abuse''))
        [Check_rate_limit 5000 ''10.0.0.1'' 5 60, Is_blocked ''10.0.0.1'',
         Block_ip ''10.0.0.2'' (Reason ''abuse''), Check_rate_limit 9000 ''10.0.0.2'' 100 3600])
     ''10.0.0.1''"
proof -
  have h: "is_blocked (block_ip SecurityMonitor ''10.0.0.1'' (Reason ''abuse'')) ''10.0.0.1''"
    by (simp add: is_blocked_def block_ip_def)
  from h blocked_forever[OF h] show ?thesis by simp
qed

section \<open>Five requests, then the block\<close>

lemma check_allowed:
  assumes "limit \<noteq> 100"
    and "recent = filter (\<lambda>req_time. now - req_time < real_of_int window) (rate_limits self ip)"
    and "int (length recent) < limit"
  shows "check_rate_limit e now self ip limit window =
           Inr (True, self\<lparr>rate_limits := (rate_limits self)(ip := recent @ [now])\<rparr>)"
  using assms by (simp add: check_rate_limit_def Let_def)

lemma check_rejected:
  assumes "limit \<noteq> 100"
    and "recent = filter (\<lambda>req_time. now - req_time < real_of_int window) (rate_limits self ip)"
    and "int (length recent) \<ge> limit"
  shows "check_rate_limit e now self ip limit window =
           Inr (False, block_ip (self\<lparr>rate_limits := (rate_limits self)(ip := recent)\<rparr>) ip
                         (Rate_limit_exceeded limit window))"
  using assms by (simp add: check_rate_limit_def Let_def)

text \<open>
  Claim C4. From a fresh monitor, six calls \<open>check_rate_limit(id, limit=5, window=60)\<close>
  at times that do not decrease and lie within one window: the first five return true,
  the sixth returns false, its time is not recorded, and the address is blocked then
  and after every later run of operations, whatever their times.
\<close>

theorem five_then_blocked:
  assumes "t1 \<le> t2" "t2 \<le> t3" "t3 \<le> t4" "t4 \<le> t5" "t5 \<le> t6" "t6 - t1 < 60"
  shows "\<exists>s1 s2 s3 s4 s5 s6.
           check_rate_limit e t1 SecurityMonitor ip 5 60 = Inr (True, s1) \<and>
           check_rate_limit e t2 s1 ip 5 60 = Inr (True, s2) \<and>
           check_rate_limit e t3 s2 ip 5 60 = Inr (True, s3) \<and>
           check_rate_limit e t4 s3 ip 5 60 = Inr (True, s4) \<and>
           check_rate_limit e t5 s4 ip 5 60 = Inr (True, s5) \<and>
           check_rate_limit e t6 s5 ip 5 60 = Inr (False, s6) \<and>
           rate_limits s6 ip = [t1, t2, t3, t4, t5] \<and>
           is_blocked s6 ip \<and>
           (\<forall>ops. is_blocked (monitor_run e s6 ops) ip)"
proof -
  define st where "st ts = SecurityMonitor\<lparr>rate_limits := (\<lambda>_. [])(ip := ts)\<rparr>" for ts
  have fresh: "SecurityMonitor = st []"
    by (simp add: st_def SecurityMonitor_def fun_eq_iff)
  have step: "check_rate_limit e now (st ts) ip 5 60 = Inr (True, st (ts @ [now]))"
    if "length ts < 5" "\<forall>t \<in> set ts. now - t < 60" for now ts
  proof -
    have "filter (\<lambda>req_time. now - req_time < real_of_int 60) (rate_limits (st ts) ip) = ts"
      using that(2) by (simp add: st_def)
    then show ?thesis
      using that(1) check_allowed[of 5 ts now 60 "st ts" ip e]
      by (simp add: st_def)
  qed
  have c1: "check_rate_limit e t1 SecurityMonitor ip 5 60 = Inr (True, st [t1])"
    using step[of "[]" t1] fresh by simp
  have c2: "check_rate_limit e t2 (st [t1]) ip 5 60 = Inr (True, st [t1, t2])"
    using step[of "[t1]" t2] assms by simp
  have c3: "check_rate_limit e t3 (st [t1, t2]) ip 5 60 = Inr (True, st [t1, t2, t3])"
    using step[of "[t1, t2]" t3] assms by simp
  have c4: "check_rate_limit e t4 (st [t1, t2, t3]) ip 5 60 = Inr (True, st [t1, t2, t3, t4])"
    using step[of "[t1, t2, t3]" t4] assms by simp
  have c5: "check_rate_limit e t5 (st [t1, t2, t3, t4]) ip 5 60
              = Inr (True, st [t1, t2, t3, t4, t5])"
    using step[of "[t1, t2, t3, t4]" t5] assms by simp
  define s6 where
    "s6 = block_ip (st [t1, t2, t3, t4, t5]) ip (Rate_limit_exceeded 5 60)"
  have keep: "filter (\<lambda>req_time. t6 - req_time < real_of_int 60)
                (rate_limits (st [t1, t2, t3, t4, t5]) ip) = [t1, t2, t3, t4, t5]"
    using assms by (simp add: st_def)
  have c6: "check_rate_limit e t6 (st [t1, t2, t3, t4, t5]) ip 5 60 = Inr (False, s6)"
    using check_rejected[of 5 "[t1, t2, t3, t4, t5]" t6 60 "st [t1, t2, t3, t4, t5]" ip e] keep
    by (simp add: s6_def st_def)
  have kept: "rate_limits s6 ip = [t1, t2, t3, t4, t5]"
    by (simp add: s6_def st_def block_ip_def)
  have blocked: "is_blocked s6 ip"
    by (simp add: s6_def is_blocked_def block_ip_def)
  have "is_blocked (monitor_run e s6 ops) ip" for ops
    using blocked monitor_run_mono[of s6 e ops] by (auto simp: is_blocked_def)
  with c1 c2 c3 c4 c5 c6 kept blocked show ?thesis by blast
qed

theorem five_then_blocked_witness:
  "\<exists>s1 s2 s3 s4 s5 s6.
     check_rate_limit (\<lambda>_. None) 0 SecurityMonitor ''192.168.1.100'' 5 60 = Inr (True, s1) \<and>
     check_rate_limit (\<lambda>_. None) 1 s1 ''192.168.1.100'' 5 60 = Inr (True, s2) \<and>
     check_rate_limit (\<lambda>_. None) 2 s2 ''192.168.1.100'' 5 60 = Inr (True, s3) \<and>
     check_rate_limit (\<lambda>_. None) 3 s3 ''192.168.1.100'' 5 60 = Inr (True, s4) \<and>
     check_rate_limit (\<lambda>_. None) 4 s4 ''192.168.1.100'' 5 60 = Inr (True, s5) \<and>
     check_rate_limit (\<lambda>_. None) 5 s5 ''192.168.1.100'' 5 60 = Inr (False, s6) \<and>
     rate_limits s6 ''192.168.1.100'' = [0, 1, 2, 3, 4] \<and>
     is_blocked s6 ''192.168.1.100'' \<and>
     is_blocked (monitor_run (\<lambda>_. None) s6 [Check_rate_limit 1000 ''192.168.1.100'' 5 60])
       ''192.168.1.100''"
proof -
  have "(0::real) \<le> 1" "(1::real) \<le> 2" "(2::real) \<le> 3" "(3::real) \<le> 4" "(4::real) \<le> 5"
    "(5::real) - 0 < 60"
    by simp_all
  from five_then_blocked[OF this, of "\<lambda>_. None" "''192.168.1.100''"] show ?thesis
    by blast
qed

section \<open>The limit 100 stands for the configured limit\<close>

lemma py_int_100: "py_int ''100'' = Some 100"
  by code_simp

lemma check_counts:
  assumes "(limit = 100 \<and> py_int (getenv e ''RATE_LIMIT_PER_HOUR'' ''100'') = Some n) \<or>
           (limit \<noteq> 100 \<and> n = limit)"
  shows "\<exists>self'.
           check_rate_limit e now self ip limit window =
             Inr (int (length (filter (\<lambda>t. now - t < real_of_int window) (rate_limits self ip))) < n,
                  self') \<and>
           rate_limits self' ip =
             filter (\<lambda>t. now - t < real_of_int window) (rate_limits self ip) @
             (if int (length (filter (\<lambda>t. now - t < real_of_int window) (rate_limits self ip))) < n
              then [now] else []) \<and>
           (is_blocked self' ip \<longleftrightarrow>
              is_blocked self ip \<or>
              \<not> int (length (filter (\<lambda>t. now - t < real_of_int window) (rate_limits self ip))) < n)"
proof -
  let ?recent = "filter (\<lambda>t. now - t < real_of_int window) (rate_limits self ip)"
  show ?thesis
  proof (cases "int (length ?recent) < n")
    case True
    with assms show ?thesis
      by (auto simp: check_rate_limit_def Let_def is_blocked_def)
  next
    case False
    with assms show ?thesis
      by (auto simp: check_rate_limit_def Let_def is_blocked_def block_ip_def)
  qed
qed

text \<open>
  Claim C10. A call of \<open>check_rate_limit\<close> with the limit 100 uses the limit that
  \<^verbatim>\<open>RATE_LIMIT_PER_HOUR\<close> gives (100 when the variable is unset; the call raises when
  its text is no integer): it does what a call with that limit does where the variable
  is unset. A call with any other limit does not depend on the environment. The limit so
  resolved is the one the count is compared with: with \<open>n\<close> the integer of the variable
  when the argument is 100, and the argument otherwise, the call answers whether fewer
  than \<open>n\<close> requests of the address lie within the window, records the request exactly
  when it answers yes, and blocks the address exactly when it answers no. So in an
  environment that sets another value a caller cannot have the limit 100.
\<close>

theorem limit_100_means_environment:
  "check_rate_limit e now self ip 100 window =
     (case py_int (getenv e ''RATE_LIMIT_PER_HOUR'' ''100'') of
        None \<Rightarrow> Inl (ValueError Builtin_text)
      | Some n \<Rightarrow> check_rate_limit (\<lambda>_. None) now self ip n window) \<and>
   (limit \<noteq> 100 \<longrightarrow>
      check_rate_limit e now self ip limit window =
      check_rate_limit (\<lambda>_. None) now self ip limit window) \<and>
   ((limit = 100 \<and> py_int (getenv e ''RATE_LIMIT_PER_HOUR'' ''100'') = Some n) \<or>
    (limit \<noteq> 100 \<and> n = limit) \<longrightarrow>
      (\<exists>self'.
         check_rate_limit e now self ip limit window =
           Inr (int (length (filter (\<lambda>t. now - t < real_of_int window) (rate_limits self ip))) < n,
                self') \<and>
         rate_limits self' ip =
           filter (\<lambda>t. now - t < real_of_int window) (rate_limits self ip) @
           (if int (length (filter (\<lambda>t. now - t < real_of_int window) (rate_limits self ip))) < n
            then [now] else []) \<and>
         (is_blocked self' ip \<longleftrightarrow>
            is_blocked self ip \<or>
            \<not> int (length (filter (\<lambda>t. now - t < real_of_int window) (rate_limits self ip))) < n)))"
proof (intro conjI impI)
  show "check_rate_limit e now self ip 100 window =
     (case py_int (getenv e ''RATE_LIMIT_PER_HOUR'' ''100'') of
        None \<Rightarrow> Inl (ValueError Builtin_text)
      | Some n \<Rightarrow> check_rate_limit (\<lambda>_. None) now self ip n window)"
    by (simp add: check_rate_limit_def getenv_def py_int_100 split: option.splits)
next
  assume "limit \<noteq> 100"
  then show "check_rate_limit e now self ip limit window =
      check_rate_limit (\<lambda>_. None) now self ip limit window"
    by (simp add: check_rate_limit_def)
next
  assume "(limit = 100 \<and> py_int (getenv e ''RATE_LIMIT_PER_HOUR'' ''100'') = Some n) \<or>
    (limit \<noteq> 100 \<and> n = limit)"
  then show "\<exists>self'.
         check_rate_limit e now self ip limit window =
           Inr (int (length (filter (\<lambda>t. now - t < real_of_int window) (rate_limits self ip))) < n,
                self') \<and>
         rate_limits self' ip =
           filter (\<lambda>t. now - t < real_of_int window) (rate_limits self ip) @
           (if int (length (filter (\<lambda>t. now - t < real_of_int window) (rate_limits self ip))) < n
            then [now] else []) \<and>
         (is_blocked self' ip \<longleftrightarrow>
            is_blocked self ip \<or>
            \<not> int (length (filter (\<lambda>t. now - t < real_of_int window) (rate_limits self ip))) < n)"
    by (rule check_counts)
qed

lemma py_int_5: "py_int ''5'' = Some 5"
  by code_simp

theorem limit_100_means_environment_witness:
  "py_int (getenv ((\<lambda>_. None)(''RATE_LIMIT_PER_HOUR'' \<mapsto> ''5'')) ''RATE_LIMIT_PER_HOUR'' ''100'') = Some 5 \<and>
   (\<exists>self'.
      check_rate_limit ((\<lambda>_. None)(''RATE_LIMIT_PER_HOUR'' \<mapsto> ''5'')) 6
        (SecurityMonitor\<lparr>rate_limits := (\<lambda>_. [1, 2, 3, 4, 5])\<rparr>) ''10.0.0.1'' 100 3600
        = Inr (False, self') \<and>
      rate_limits self' ''10.0.0.1'' = [1, 2, 3, 4, 5] \<and> is_blocked self' ''10.0.0.1'') \<and>
   (\<exists>self'.
      check_rate_limit ((\<lambda>_. None)(''RATE_LIMIT_PER_HOUR'' \<mapsto> ''5'')) 6
        (SecurityMonitor\<lparr>rate_limits := (\<lambda>_. [1, 2, 3, 4])\<rparr>) ''10.0.0.1'' 100 3600
        = Inr (True, self') \<and>
      rate_limits self' ''10.0.0.1'' = [1, 2, 3, 4, 6] \<and> \<not> is_blocked self' ''10.0.0.1'') \<and>
   (7::int) \<noteq> 100 \<and>
   check_rate_limit ((\<lambda>_. None)(''RATE_LIMIT_PER_HOUR'' \<mapsto> ''5'')) 6
        (SecurityMonitor\<lparr>rate_limits := (\<lambda>_. [1, 2, 3, 4, 5])\<rparr>) ''10.0.0.1'' 7 3600 =
   check_rate_limit (\<lambda>_. None) 6
        (SecurityMonitor\<lparr>rate_limits := (\<lambda>_. [1, 2, 3, 4, 5])\<rparr>) ''10.0.0.1'' 7 3600"
proof -
  let ?e = "(\<lambda>_. None)(''RATE_LIMIT_PER_HOUR'' \<mapsto> ''5'')"
  have n: "py_int (getenv ?e ''RATE_LIMIT_PER_HOUR'' ''100'') = Some 5"
    by (simp add: getenv_def py_int_5)
  have full: "\<exists>self'.
      check_rate_limit ?e 6 (SecurityMonitor\<lparr>rate_limits := (\<lambda>_. [1, 2, 3, 4, 5])\<rparr>)
        ''10.0.0.1'' 100 3600 = Inr (False, self') \<and>
      rate_limits self' ''10.0.0.1'' = [1, 2, 3, 4, 5] \<and> is_blocked self' ''10.0.0.1''"
    using limit_100_means_environment[where e = ?e and now = 6 and limit = 100 and n = 5
        and self = "SecurityMonitor\<lparr>rate_limits := (\<lambda>_. [1, 2, 3, 4, 5])\<rparr>"
        and ip = "''10.0.0.1''" and window = 3600, THEN conjunct2, THEN conjunct2] n
    by simp
  have room: "\<exists>self'.
      check_rate_limit ?e 6 (SecurityMonitor\<lparr>rate_limits := (\<lambda>_. [1, 2, 3, 4])\<rparr>)
        ''10.0.0.1'' 100 3600 = Inr (True, self') \<and>
      rate_limits self' ''10.0.0.1'' = [1, 2, 3, 4, 6] \<and> \<not> is_blocked self' ''10.0.0.1''"
    using limit_100_means_environment[where e = ?e and now = 6 and limit = 100 and n = 5
        and self = "SecurityMonitor\<lparr>rate_limits := (\<lambda>_. [1, 2, 3, 4])\<rparr>"
        and ip = "''10.0.0.1''" and window = 3600, THEN conjunct2, THEN conjunct2] n
    by (simp add: is_blocked_def SecurityMonitor_def)
  have other: "check_rate_limit ?e 6
        (SecurityMonitor\<lparr>rate_limits := (\<lambda>_. [1, 2, 3, 4, 5])\<rparr>) ''10.0.0.1'' 7 3600 =
      check_rate_limit (\<lambda>_. None) 6
        (SecurityMonitor\<lparr>rate_limits := (\<lambda>_. [1, 2, 3, 4, 5])\<rparr>) ''10.0.0.1'' 7 3600"
    using limit_100_means_environment[where e = ?e and limit = 7, THEN conjunct2, THEN conjunct1]
    by simp
  from n full room other show ?thesis by simp
qed


section \<open>The two routes\<close>

lemma py_int_10000: "py_int ''10000'' = Some 10000"
  by code_simp

lemma start_test_env: "start test_env = Inr test_app"
  by (simp add: start_def RequestValidator_def SecureGaiaClient_def getenv_def test_env_def
      test_app_def py_int_10000)

lemma privacy_default: "privacy_enabled test_env"
  unfolding privacy_enabled_def getenv_def test_env_def by code_simp

lemma model_default: "re_match no_flags model_pattern ''default''"
  by code_simp

lemma sanitize_card: "sanitize_content card_number = card_number"
  by code_simp

lemma detect_card: "detect_sensitive_data card_number = [(''credit_card'', card_number)]"
  by code_simp



lemma validate_user_message:
  assumes "sanitize_content s = s'" "length s \<le> 10000"
  shows "validate_chat_request (validator test_app)
           [(''model'', JStr ''default''),
            (''messages'', JList [JDict [(''role'', JStr ''user''), (''content'', JStr s)]])]
         = Inr \<lparr>model = ''default'', messages = [\<lparr>role = ''user'', content = s'\<rparr>],
                max_tokens = None, temperature = None\<rparr>"
  using assms
  by (simp add: validate_chat_request_def dict_get_def validate_message_def model_default
      check_max_tokens_def check_temperature_def test_app_def)

lemma privacy_single:
  "validate_request_privacy [\<lparr>role = r, content = s\<rparr>] =
     (if detect_sensitive_data s \<noteq> [] then [(0, map fst (detect_sensitive_data s))] else [])"
  by (simp add: validate_request_privacy_def Let_def)

lemma chat_completion_privacy_first:
  assumes "gaia a = Some g"
    and "validate_chat_request (validator a)
           ([(''model'', dict_get d ''model'' (JStr (default_model g))),
             (''messages'',
              (case map_of d ''message'' of
                 Some v \<Rightarrow> JList [JDict [(''role'', JStr ''user''), (''content'', v)]]
               | None \<Rightarrow> dict_get d ''messages'' (JList [])))]
            @ (case map_of d ''max_tokens'' of Some v \<Rightarrow> [(''max_tokens'', v)] | None \<Rightarrow> [])
            @ (case map_of d ''temperature'' of Some v \<Rightarrow> [(''temperature'', v)] | None \<Rightarrow> []))
         = Inr v"
    and "d \<noteq> []"
    and "privacy_enabled (environ a)"
    and "validate_request_privacy (messages v) \<noteq> []"
  shows "chat_completion a up ts (JDict d) = (Error_json 400 (Text ''Privacy violation detected''), [])"
  using assms by (simp add: chat_completion_def Let_def)

lemma client_maps_errors:
  assumes "create up \<lparr>call_model = (if m = [] then default_model g else m), call_messages = ms,
                      call_max_tokens = mt, call_temperature = t, call_stream = False\<rparr> = Inl e"
  shows "fst (SecureGaiaClient_chat_completion g up ms m mt t) =
           (case e of
              BadRequestError _ \<Rightarrow> Inl (ValueError (Text ''Invalid request format''))
            | NotFoundError _ \<Rightarrow> Inl (ValueError (Text ''Model not available''))
            | InternalServerError _ \<Rightarrow> Inl (RuntimeError (Text ''Service temporarily unavailable''))
            | OtherError _ \<Rightarrow> Inl (RuntimeError (Text ''Request failed'')))"
  using assms by (cases e) (simp_all add: SecureGaiaClient_chat_completion_def Let_def)

text \<open>
  Claim C1, at the card number of the tests, with the privacy filter enabled and the
  client configured. \<^verbatim>\<open>POST /api/chat\<close> answers 400 \<^verbatim>\<open>Privacy violation detected\<close> and
  calls nothing. \<^verbatim>\<open>GET /api/chat/stream\<close>, as it is served, makes no privacy check and
  gives no privacy error: its one event carries the text of the \<^verbatim>\<open>RuntimeError\<close> that
  \<^verbatim>\<open>request.args\<close> raises outside the request context. Nor has the body of
  \<^verbatim>\<open>generate\<close> a privacy check: run inside a request context it calls the provider
  with the card number in the message, whatever the provider does.
\<close>

theorem stream_without_privacy_check:
  "chat_completion test_app up ts (JDict [(''message'', JStr card_number)]) =
     (Error_json 400 (Text ''Privacy violation detected''), []) \<and>
   chat_stream test_app up (Some card_number) None =
     ([Error_event Builtin_text], [Log_error ''Streaming error: '' Builtin_text]) \<and>
   (\<exists>events effects.
      generate test_app up (Some (Some card_number, None)) =
        (events,
         Create \<lparr>call_model = ''default'',
                 call_messages = [\<lparr>role = ''user'', content = card_number\<rparr>],
                 call_max_tokens = None, call_temperature = None, call_stream = True\<rparr>
         # effects))"
proof -
  have len: "length card_number \<le> 10000" "card_number \<noteq> []"
    by (simp_all add: card_number_def)
  note v = validate_user_message[OF sanitize_card len(1)]
  have p: "validate_request_privacy [\<lparr>role = ''user'', content = card_number\<rparr>] \<noteq> []"
    by (simp add: privacy_single detect_card)
  have e: "privacy_enabled (environ test_app)"
    using privacy_default by (simp add: test_app_def)
  have g: "gaia test_app = Some \<lparr>default_model = ''default''\<rparr>"
    by (simp add: test_app_def)
  have sync: "chat_completion test_app up ts (JDict [(''message'', JStr card_number)]) =
     (Error_json 400 (Text ''Privacy violation detected''), [])"
    by (rule chat_completion_privacy_first[OF g _ _ e, where v = "\<lparr>model = ''default'', messages = [\<lparr>role = ''user'', content = card_number\<rparr>],
                max_tokens = None, temperature = None\<rparr>"])
       (simp_all add: dict_get_def v p)
  have served: "chat_stream test_app up (Some card_number) None =
     ([Error_event Builtin_text], [Log_error ''Streaming error: '' Builtin_text])"
    by (simp add: chat_stream_def generate_def stream_error_def)
  have "\<exists>events effects.
      generate test_app up (Some (Some card_number, None)) =
        (events,
         Create \<lparr>call_model = ''default'',
                 call_messages = [\<lparr>role = ''user'', content = card_number\<rparr>],
                 call_max_tokens = None, call_temperature = None, call_stream = True\<rparr>
         # effects)"
    using len(2)
    by (simp add: generate_def Let_def g v stream_error_def
        split: sum.splits prod.splits option.splits)
  with sync served show ?thesis by simp
qed


lemma client_result:
  "SecureGaiaClient_chat_completion g up ms m mt t =
     (case create up (the_call g ms m mt t) of
        Inr r \<Rightarrow> (Inr r, [Create (the_call g ms m mt t)])
      | Inl e \<Rightarrow> (Inl (mapped e), [Create (the_call g ms m mt t), log_line e]))"
proof (cases "create up (the_call g ms m mt t)")
  case (Inl e)
  then show ?thesis
    by (cases e) (simp_all add: SecureGaiaClient_chat_completion_def the_call_def)
next
  case (Inr r)
  then show ?thesis
    by (simp add: SecureGaiaClient_chat_completion_def the_call_def)
qed

lemma client_failure:
  assumes "Create c \<in> set (snd (SecureGaiaClient_chat_completion g up ms m mt t))"
    and "create up c = Inl e"
  shows "SecureGaiaClient_chat_completion g up ms m mt t = (Inl (mapped e), [Create c, log_line e])"
proof -
  have "c = the_call g ms m mt t"
  proof (cases "create up (the_call g ms m mt t)")
    case (Inl x)
    with assms(1) show ?thesis
      by (cases x) (simp_all add: client_result)
  next
    case (Inr r)
    with assms(1) show ?thesis
      by (simp add: client_result)
  qed
  with assms(2) show ?thesis
    by (simp add: client_result)
qed

lemma mapped_answer:
  "chat_error (mapped e) =
     (case e of
        BadRequestError _ \<Rightarrow> Error_json 400 (Text ''Invalid request format'')
      | NotFoundError _ \<Rightarrow> Error_json 400 (Text ''Model not available'')
      | InternalServerError _ \<Rightarrow> Error_json 500 (Text ''Service temporarily unavailable'')
      | OtherError _ \<Rightarrow> Error_json 500 (Text ''Request failed''), [])"
  by (cases e) simp_all





section \<open>No request is rejected for an email\<close>

lemma validate_message_sanitized:
  "validate_message self m = Inr v \<Longrightarrow> \<exists>s. content v = sanitize_content s"
  by (auto simp: validate_message_def Let_def split: json.splits if_splits option.splits)

lemma validate_messages_sanitized:
  "validate_messages self ms = Inr vs \<Longrightarrow> v \<in> set vs \<Longrightarrow> \<exists>s. content v = sanitize_content s"
proof (induction ms arbitrary: vs)
  case Nil
  then show ?case by simp
next
  case (Cons m ms)
  then show ?case
    by (auto split: sum.splits dest: validate_message_sanitized)
qed

lemma validate_chat_request_sanitized:
  "validate_chat_request self d = Inr r \<Longrightarrow> v \<in> set (messages r) \<Longrightarrow>
   \<exists>s. content v = sanitize_content s"
  by (auto simp: validate_chat_request_def split: json.splits if_splits sum.splits
      dest: validate_messages_sanitized)

lemma privacy_kinds:
  "(i, kinds) \<in> set (validate_request_privacy msgs) \<Longrightarrow>
   \<exists>m \<in> set msgs. kinds = map fst (detect_sensitive_data (content m))"
  by (auto simp: validate_request_privacy_def Let_def in_set_enumerate_eq split: if_splits)

lemma sanitize_mail: 
  "sanitize_content ''a.b@c.de 4532-1234-5678-9012'' = ''a.bc.de 4532-1234-5678-9012''"
  by code_simp

lemma detect_mail:
  "detect_sensitive_data ''a.bc.de 4532-1234-5678-9012'' = [(''credit_card'', ''4532-1234-5678-9012'')]"
  by code_simp

text \<open>
  Claim C9. Whatever the text, no finding of kind \<open>email\<close> is detected in its sanitized
  form: the sanitizer removes every \<^verbatim>\<open>@\<close>, and a match of the email pattern
  contains one. The contents of a validated request are sanitized texts, so that no
  violation that \<open>validate_request_privacy\<close> reports for it names the kind.
\<close>

theorem never_email:
  "''email'' \<notin> fst ` set (detect_sensitive_data (sanitize_content s)) \<and>
   (validate_chat_request self d = Inr r \<longrightarrow>
      ''email'' \<notin> \<Union> (set ` snd ` set (validate_request_privacy (messages r))))"
proof (intro conjI impI)
  show "''email'' \<notin> fst ` set (detect_sensitive_data (sanitize_content s))"
    by (rule no_email_after_sanitize)
next
  assume ok: "validate_chat_request self d = Inr r"
  show "''email'' \<notin> \<Union> (set ` snd ` set (validate_request_privacy (messages r)))"
  proof
    assume "''email'' \<in> \<Union> (set ` snd ` set (validate_request_privacy (messages r)))"
    then obtain i kinds where v: "(i, kinds) \<in> set (validate_request_privacy (messages r))"
      and k: "''email'' \<in> set kinds"
      by auto
    from privacy_kinds[OF v] obtain m where m: "m \<in> set (messages r)"
      and kinds: "kinds = map fst (detect_sensitive_data (content m))"
      by blast
    from validate_chat_request_sanitized[OF ok m] obtain t where "content m = sanitize_content t"
      by blast
    with k kinds no_email_after_sanitize[of t] show False
      by simp
  qed
qed

theorem never_email_witness:
  "validate_chat_request (validator test_app)
     [(''model'', JStr ''default''),
      (''messages'', JList [JDict [(''role'', JStr ''user''),
                                   (''content'', JStr ''a.b@c.de 4532-1234-5678-9012'')]])]
     = Inr \<lparr>model = ''default'',
            messages = [\<lparr>role = ''user'', content = ''a.bc.de 4532-1234-5678-9012''\<rparr>],
            max_tokens = None, temperature = None\<rparr> \<and>
   validate_request_privacy [\<lparr>role = ''user'', content = ''a.bc.de 4532-1234-5678-9012''\<rparr>]
     = [(0, [''credit_card''])] \<and>
   ''email'' \<notin> \<Union> (set ` snd ` set (validate_request_privacy
       [\<lparr>role = ''user'', content = ''a.bc.de 4532-1234-5678-9012''\<rparr>]))"
proof -
  let ?d = "[(''model'', JStr ''default''),
      (''messages'', JList [JDict [(''role'', JStr ''user''),
                                   (''content'', JStr ''a.b@c.de 4532-1234-5678-9012'')]])]"
  have v: "validate_chat_request (validator test_app) ?d
     = Inr \<lparr>model = ''default'',
            messages = [\<lparr>role = ''user'', content = ''a.bc.de 4532-1234-5678-9012''\<rparr>],
            max_tokens = None, temperature = None\<rparr>"
    by (rule validate_user_message[OF sanitize_mail]) simp
  have p: "validate_request_privacy [\<lparr>role = ''user'', content = ''a.bc.de 4532-1234-5678-9012''\<rparr>]
     = [(0, [''credit_card''])]"
    by (simp add: privacy_single detect_mail)
  from never_email[THEN conjunct2, THEN mp, OF v] v p show ?thesis
    by simp
qed

section \<open>The order of the checks of the validator\<close>

lemma validate_messages_first_failure:
  "i < length ms \<Longrightarrow> (\<forall>j<i. \<exists>v. validate_message self (ms ! j) = Inr v) \<Longrightarrow>
   validate_message self (ms ! i) = Inl e \<Longrightarrow> validate_messages self ms = Inl e"
proof (induction ms arbitrary: i)
  case Nil
  then show ?case by simp
next
  case (Cons m ms)
  show ?case
  proof (cases i)
    case 0
    with Cons.prems show ?thesis by simp
  next
    case (Suc k)
    with Cons.prems obtain v where v: "validate_message self m = Inr v"
      by fastforce
    have "validate_messages self ms = Inl e"
    proof (rule Cons.IH[of k])
      show "k < length ms" using Cons.prems(1) Suc by simp
      show "\<forall>j<k. \<exists>v. validate_message self (ms ! j) = Inr v"
        using Cons.prems(2) Suc by fastforce
      show "validate_message self (ms ! k) = Inl e"
        using Cons.prems(3) Suc by simp
    qed
    with v show ?thesis by simp
  qed
qed

lemma message_checks:
  "(\<forall>d. m \<noteq> JDict d) \<longrightarrow>
     validate_message self m = Inl (ValueError (Text ''Message must be a dictionary''))"
  "m = JDict d \<and> hashable (dict_get d ''role'' JNull) \<and>
   \<not> in_roles (dict_get d ''role'' JNull) (allowed_roles self) \<longrightarrow>
     validate_message self m = Inl (ValueError (Invalid_role (dict_get d ''role'' JNull)))"
  "m = JDict d \<and> in_roles (dict_get d ''role'' JNull) (allowed_roles self) \<and>
   len (dict_get d ''content'' (JStr [])) = Some n \<and> int n > max_message_length self \<longrightarrow>
     validate_message self m = Inl (ValueError (Message_too_long (max_message_length self)))"
    apply (cases m; simp add: validate_message_def)
   apply (simp add: validate_message_def Let_def)
  apply (cases "dict_get d ''role'' JNull"; simp add: validate_message_def Let_def)
  done

text \<open>
  Claim C3, as amended. \<open>validate_chat_request\<close> raises at the first check that fails,
  in this order: the model name; the messages being a list of at most \<open>max_messages\<close>
  entries; then, message by message in the order of the list, the three checks of one
  message (being an object, its role being allowed, its content being no longer than
  \<open>max_message_length\<close>), so that the first message that fails decides, by its own
  first failing check; then \<open>max_tokens\<close>; then \<open>temperature\<close>. A later check is not
  made, so that no second failure is reported; the answer for a request that passes all
  of them is the validated request. The witness has the three requests of the claim:
  101 messages, the role \<^verbatim>\<open>hacker\<close>, and \<^verbatim>\<open>max_tokens = 5000\<close>.
\<close>

theorem validation_order:
  "(dict_get d ''model'' (JStr []) = JStr m \<and> \<not> re_match no_flags model_pattern m \<longrightarrow>
      validate_chat_request self d = Inl (ValueError (Text ''Invalid model name format''))) \<and>
   (dict_get d ''model'' (JStr []) = JStr m \<and> re_match no_flags model_pattern m \<and>
    (\<forall>ms. dict_get d ''messages'' (JList []) = JList ms \<longrightarrow> length ms > max_messages self) \<longrightarrow>
      validate_chat_request self d = Inl (ValueError (Invalid_messages (max_messages self)))) \<and>
   (dict_get d ''model'' (JStr []) = JStr m \<and> re_match no_flags model_pattern m \<and>
    dict_get d ''messages'' (JList []) = JList ms \<and> length ms \<le> max_messages self \<and>
    i < length ms \<and> (\<forall>j<i. \<exists>v. validate_message self (ms ! j) = Inr v) \<and>
    validate_message self (ms ! i) = Inl e \<longrightarrow>
      validate_chat_request self d = Inl e) \<and>
   ((\<forall>c. msg \<noteq> JDict c) \<longrightarrow>
      validate_message self msg = Inl (ValueError (Text ''Message must be a dictionary''))) \<and>
   (msg = JDict c \<and> hashable (dict_get c ''role'' JNull) \<and>
    \<not> in_roles (dict_get c ''role'' JNull) (allowed_roles self) \<longrightarrow>
      validate_message self msg = Inl (ValueError (Invalid_role (dict_get c ''role'' JNull)))) \<and>
   (msg = JDict c \<and> in_roles (dict_get c ''role'' JNull) (allowed_roles self) \<and>
    len (dict_get c ''content'' (JStr [])) = Some n \<and> int n > max_message_length self \<longrightarrow>
      validate_message self msg = Inl (ValueError (Message_too_long (max_message_length self)))) \<and>
   (dict_get d ''model'' (JStr []) = JStr m \<and> re_match no_flags model_pattern m \<and>
    dict_get d ''messages'' (JList []) = JList ms \<and> length ms \<le> max_messages self \<and>
    validate_messages self ms = Inr vs \<and>
    map_of d ''max_tokens'' = Some mt \<and> \<not> max_tokens_ok mt \<longrightarrow>
      validate_chat_request self d = Inl (ValueError (Text ''Invalid max_tokens value''))) \<and>
   (dict_get d ''model'' (JStr []) = JStr m \<and> re_match no_flags model_pattern m \<and>
    dict_get d ''messages'' (JList []) = JList ms \<and> length ms \<le> max_messages self \<and>
    validate_messages self ms = Inr vs \<and>
    (\<forall>mt. map_of d ''max_tokens'' = Some mt \<longrightarrow> max_tokens_ok mt) \<and>
    map_of d ''temperature'' = Some t \<and> \<not> temperature_ok t \<longrightarrow>
      validate_chat_request self d = Inl (ValueError (Text ''Invalid temperature value''))) \<and>
   (dict_get d ''model'' (JStr []) = JStr m \<and> re_match no_flags model_pattern m \<and>
    dict_get d ''messages'' (JList []) = JList ms \<and> length ms \<le> max_messages self \<and>
    validate_messages self ms = Inr vs \<and>
    (\<forall>mt. map_of d ''max_tokens'' = Some mt \<longrightarrow> max_tokens_ok mt) \<and>
    (\<forall>t. map_of d ''temperature'' = Some t \<longrightarrow> temperature_ok t) \<longrightarrow>
      validate_chat_request self d =
        Inr \<lparr>model = m, messages = vs, max_tokens = map_of d ''max_tokens'',
             temperature = map_of d ''temperature''\<rparr>)"
proof -
  have 1: "dict_get d ''model'' (JStr []) = JStr m \<and> \<not> re_match no_flags model_pattern m \<longrightarrow>
      validate_chat_request self d = Inl (ValueError (Text ''Invalid model name format''))"
    by (simp add: validate_chat_request_def)
  have 2: "dict_get d ''model'' (JStr []) = JStr m \<and> re_match no_flags model_pattern m \<and>
    (\<forall>ms. dict_get d ''messages'' (JList []) = JList ms \<longrightarrow> length ms > max_messages self) \<longrightarrow>
      validate_chat_request self d = Inl (ValueError (Invalid_messages (max_messages self)))"
    by (cases "dict_get d ''messages'' (JList [])") (simp_all add: validate_chat_request_def)
  have 3: "dict_get d ''model'' (JStr []) = JStr m \<and> re_match no_flags model_pattern m \<and>
    dict_get d ''messages'' (JList []) = JList ms \<and> length ms \<le> max_messages self \<and>
    i < length ms \<and> (\<forall>j<i. \<exists>v. validate_message self (ms ! j) = Inr v) \<and>
    validate_message self (ms ! i) = Inl e \<longrightarrow>
      validate_chat_request self d = Inl e"
    using validate_messages_first_failure[of i ms self e]
    by (simp add: validate_chat_request_def)
  have 7: "dict_get d ''model'' (JStr []) = JStr m \<and> re_match no_flags model_pattern m \<and>
    dict_get d ''messages'' (JList []) = JList ms \<and> length ms \<le> max_messages self \<and>
    validate_messages self ms = Inr vs \<and>
    map_of d ''max_tokens'' = Some mt \<and> \<not> max_tokens_ok mt \<longrightarrow>
      validate_chat_request self d = Inl (ValueError (Text ''Invalid max_tokens value''))"
    by (simp add: validate_chat_request_def check_max_tokens_def)
  have 8: "dict_get d ''model'' (JStr []) = JStr m \<and> re_match no_flags model_pattern m \<and>
    dict_get d ''messages'' (JList []) = JList ms \<and> length ms \<le> max_messages self \<and>
    validate_messages self ms = Inr vs \<and>
    (\<forall>mt. map_of d ''max_tokens'' = Some mt \<longrightarrow> max_tokens_ok mt) \<and>
    map_of d ''temperature'' = Some t \<and> \<not> temperature_ok t \<longrightarrow>
      validate_chat_request self d = Inl (ValueError (Text ''Invalid temperature value''))"
    by (cases "map_of d ''max_tokens''")
       (simp_all add: validate_chat_request_def check_max_tokens_def check_temperature_def)
  have 9: "dict_get d ''model'' (JStr []) = JStr m \<and> re_match no_flags model_pattern m \<and>
    dict_get d ''messages'' (JList []) = JList ms \<and> length ms \<le> max_messages self \<and>
    validate_messages self ms = Inr vs \<and>
    (\<forall>mt. map_of d ''max_tokens'' = Some mt \<longrightarrow> max_tokens_ok mt) \<and>
    (\<forall>t. map_of d ''temperature'' = Some t \<longrightarrow> temperature_ok t) \<longrightarrow>
      validate_chat_request self d =
        Inr \<lparr>model = m, messages = vs, max_tokens = map_of d ''max_tokens'',
             temperature = map_of d ''temperature''\<rparr>"
    by (cases "map_of d ''max_tokens''"; cases "map_of d ''temperature''")
       (simp_all add: validate_chat_request_def check_max_tokens_def check_temperature_def)
  show ?thesis
    by (intro conjI 1 2 3 7 8 9 message_checks)
qed

lemma model_test: "re_match no_flags model_pattern ''test-model''"
  by code_simp

lemma sanitize_hi: "sanitize_content ''hi'' = ''hi''"
  by code_simp

lemma validate_user_hi:
  "validate_message (validator test_app) user_hi = Inr \<lparr>role = ''user'', content = ''hi''\<rparr>"
  by (simp add: validate_message_def user_hi_def dict_get_def test_app_def sanitize_hi)

theorem validation_order_witness:
  "validate_chat_request (validator test_app)
     [(''model'', JStr ''test-model''), (''messages'', JList (replicate 101 user_hi))]
     = Inl (ValueError (Invalid_messages 100)) \<and>
   validate_chat_request (validator test_app)
     [(''model'', JStr ''test-model''),
      (''messages'', JList [user_hi, JDict [(''role'', JStr ''hacker''), (''content'', JStr ''hi'')]])]
     = Inl (ValueError (Invalid_role (JStr ''hacker''))) \<and>
   validate_chat_request (validator test_app)
     [(''model'', JStr ''test-model''), (''messages'', JList [user_hi]),
      (''max_tokens'', JInt 5000)]
     = Inl (ValueError (Text ''Invalid max_tokens value''))"
proof -
  let ?v = "validator test_app"
  let ?hacker = "JDict [(''role'', JStr ''hacker''), (''content'', JStr ''hi'')]"
  let ?d1 = "[(''model'', JStr ''test-model''), (''messages'', JList (replicate 101 user_hi))]"
  let ?d2 = "[(''model'', JStr ''test-model''), (''messages'', JList [user_hi, ?hacker])]"
  let ?d3 = "[(''model'', JStr ''test-model''), (''messages'', JList [user_hi]),
              (''max_tokens'', JInt 5000)]"
  have many: "validate_chat_request ?v ?d1 = Inl (ValueError (Invalid_messages 100))"
    using validation_order[where d = ?d1 and m = "''test-model''" and self = ?v,
        THEN conjunct2, THEN conjunct1] model_test
    by (simp add: dict_get_def test_app_def)
  have "validate_message ?v ?hacker = Inl (ValueError (Invalid_role (JStr ''hacker'')))"
    using validation_order[where msg = ?hacker and self = ?v
        and c = "[(''role'', JStr ''hacker''), (''content'', JStr ''hi'')]",
        THEN conjunct2, THEN conjunct2, THEN conjunct2, THEN conjunct2, THEN conjunct1]
    by (simp add: dict_get_def test_app_def)
  then have hacker: "validate_chat_request ?v ?d2 = Inl (ValueError (Invalid_role (JStr ''hacker'')))"
    using validation_order[where d = ?d2 and m = "''test-model''" and self = ?v
        and ms = "[user_hi, ?hacker]" and i = 1
        and e = "ValueError (Invalid_role (JStr ''hacker''))",
        THEN conjunct2, THEN conjunct2, THEN conjunct1] model_test validate_user_hi
    by (simp add: dict_get_def test_app_def)
  have tokens: "validate_chat_request ?v ?d3 = Inl (ValueError (Text ''Invalid max_tokens value''))"
    using validation_order[where d = ?d3 and m = "''test-model''" and self = ?v
        and ms = "[user_hi]" and vs = "[\<lparr>role = ''user'', content = ''hi''\<rparr>]"
        and mt = "JInt 5000",
        THEN conjunct2, THEN conjunct2, THEN conjunct2, THEN conjunct2, THEN conjunct2,
        THEN conjunct2, THEN conjunct1] model_test validate_user_hi
    by (simp add: dict_get_def test_app_def)
  from many hacker tokens show ?thesis by simp
qed

text \<open>
  Claim C3 as stated fails: the three checks of the messages are not made one after
  the other over the whole list. For a message with the role \<^verbatim>\<open>hacker\<close> followed by a
  message that is no object the program reports the role, where the order of the
  specification reports the message that is no object; for a message that is too long
  followed by a message with the role \<^verbatim>\<open>hacker\<close> the program reports the length, where
  the order of the specification reports the role.
\<close>

theorem validation_order_claim_fails:
  "validate_chat_request (validator test_app)
     [(''model'', JStr ''test-model''),
      (''messages'', JList [JDict [(''role'', JStr ''hacker''), (''content'', JStr ''hi'')],
                            JStr ''hi''])]
     = Inl (ValueError (Invalid_role (JStr ''hacker''))) \<and>
   validate_as_specified (validator test_app)
     [(''model'', JStr ''test-model''),
      (''messages'', JList [JDict [(''role'', JStr ''hacker''), (''content'', JStr ''hi'')],
                            JStr ''hi''])]
     = Inl (ValueError (Text ''Message must be a dictionary'')) \<and>
   validate_chat_request (validator test_app)
     [(''model'', JStr ''test-model''),
      (''messages'', JList [JDict [(''role'', JStr ''user''),
                                   (''content'', JStr (replicate 10001 CHR ''a''))],
                            JDict [(''role'', JStr ''hacker''), (''content'', JStr ''hi'')]])]
     = Inl (ValueError (Message_too_long 10000)) \<and>
   validate_as_specified (validator test_app)
     [(''model'', JStr ''test-model''),
      (''messages'', JList [JDict [(''role'', JStr ''user''),
                                   (''content'', JStr (replicate 10001 CHR ''a''))],
                            JDict [(''role'', JStr ''hacker''), (''content'', JStr ''hi'')]])]
     = Inl (ValueError (Invalid_role (JStr ''hacker'')))"
  by (simp add: validate_chat_request_def validate_as_specified_def validate_message_def
      dict_get_def test_app_def model_test too_long_def)

section \<open>Credit card numbers\<close>







lemma digits4_end: "rmatch f (digits 4) (p, []) = []"
  by (simp add: digits_def numeral_eq_Suc)


lemma opt_sep_sep:
  "x = CHR ''-'' \<or> is_space x \<Longrightarrow>
   rmatch f (Opt (In [Ch (CHR ''-''), CatS])) (p, x # r) = [(Some x, r), (p, x # r)]"
  by auto































section \<open>Redacting twice\<close>










end
